theory Spec2Isabelle
  imports Main "HOL-Library.Word"
begin

section \<open>Python strings\<close>

text \<open>
  A Python \<open>str\<close> is a sequence of Unicode code points; \<open>len\<close>, slicing,
  \<open>startswith\<close> and \<open>endswith\<close> count code points. A string is therefore a list
  of code points (natural numbers); \<open>ascii\<close> writes an ASCII literal.
\<close>

type_synonym pystr = "nat list"

definition ascii :: "string \<Rightarrow> pystr" where
  "ascii s = map of_char s"

text \<open>
  \<open>str.strip()\<close> without argument removes leading and trailing whitespace, that is
  the code points for which \<open>str.isspace\<close> holds: U+0009..U+000D, U+001C..U+0020,
  U+0085, U+00A0, U+1680, U+2000..U+200A, U+2028, U+2029, U+202F, U+205F, U+3000.
\<close>

definition py_isspace :: "nat \<Rightarrow> bool" where
  "py_isspace c \<longleftrightarrow>
     (9 \<le> c \<and> c \<le> 13) \<or> (28 \<le> c \<and> c \<le> 32) \<or> c = 133 \<or> c = 160 \<or> c = 5760 \<or>
     (8192 \<le> c \<and> c \<le> 8202) \<or> c = 8232 \<or> c = 8233 \<or> c = 8239 \<or> c = 8287 \<or> c = 12288"

definition py_strip :: "pystr \<Rightarrow> pystr" where
  "py_strip s = rev (dropWhile py_isspace (rev (dropWhile py_isspace s)))"

definition startswith :: "pystr \<Rightarrow> pystr \<Rightarrow> bool" where
  "startswith s p \<longleftrightarrow> take (length p) s = p"

definition endswith :: "pystr \<Rightarrow> pystr \<Rightarrow> bool" where
  "endswith s p \<longleftrightarrow> length p \<le> length s \<and> drop (length s - length p) s = p"

text \<open>
  \<open>str.lower()\<close>. On code points below U+0100 it works code point by code point:
  A..Z and the Latin-1 capitals U+00C0..U+00DE (without the multiplication sign U+00D7)
  move up by 32, everything else stays. Above U+00FF the case mapping of Unicode is
  context dependent and can change the length; it is not part of this program and is
  taken as the parameter \<open>ext\<close>.
\<close>

definition lower_latin1 :: "nat \<Rightarrow> nat" where
  "lower_latin1 c =
     (if (65 \<le> c \<and> c \<le> 90) \<or> (192 \<le> c \<and> c \<le> 222 \<and> c \<noteq> 215) then c + 32 else c)"

definition py_lower :: "(pystr \<Rightarrow> pystr) \<Rightarrow> pystr \<Rightarrow> pystr" where
  "py_lower ext s = (if list_all (\<lambda>c. c < 256) s then map lower_latin1 s else ext s)"

section \<open>Clean-up of the generated SQL\<close>

text \<open>
  The last lines of \<open>QueryRouter._generate_sql\<close> (query_router.py, lines 100-109):
  \<^verbatim>\<open>
  sql_query = sql_query.strip()
  if sql_query.startswith("```sql"):
      sql_query = sql_query[6:]
  if sql_query.startswith("```"):
      sql_query = sql_query[3:]
  if sql_query.endswith("```"):
      sql_query = sql_query[:-3]
  return sql_query.strip()
  \<close>
\<close>

definition fence :: pystr where
  "fence = ascii ''```''"

definition fence_sql :: pystr where
  "fence_sql = ascii ''```sql''"

definition clean_sql :: "pystr \<Rightarrow> pystr" where
  "clean_sql raw =
     (let s0 = py_strip raw;
          s1 = (if startswith s0 fence_sql then drop 6 s0 else s0);
          s2 = (if startswith s1 fence then drop 3 s1 else s1);
          s3 = (if endswith s2 fence then take (length s2 - 3) s2 else s2)
      in py_strip s3)"

definition strip_fences :: "pystr \<Rightarrow> pystr" where
  \<comment> \<open>the two conditionals after the \<open>```sql\<close> test, on their own\<close>
  "strip_fences s1 =
     (let s2 = (if startswith s1 fence then drop 3 s1 else s1)
      in if endswith s2 fence then take (length s2 - 3) s2 else s2)"

section \<open>Exceptions\<close>

text \<open>
  Everything the pipeline raises derives from \<open>Exception\<close>; the router only ever looks
  at \<open>str(e)\<close>. An exception is represented by that text, and a computation that may
  raise returns \<open>exn + 'a\<close> with \<open>Inl\<close> the exception.
\<close>

type_synonym exn = pystr

section \<open>Numbers as text\<close>

fun digits :: "nat \<Rightarrow> pystr" where
  "digits n = (if n < 10 then [48 + n] else digits (n div 10) @ [48 + n mod 10])"

declare digits.simps [simp del]

definition str_int :: "int \<Rightarrow> pystr" where
  "str_int i = (if i < 0 then 45 # digits (nat (- i)) else digits (nat i))"

fun group3 :: "pystr \<Rightarrow> pystr" where
  "group3 ds =
     (if length ds \<le> 3 then ds
      else group3 (take (length ds - 3) ds) @ 44 # drop (length ds - 3) ds)"

declare group3.simps [simp del]

fun bit_length :: "nat \<Rightarrow> nat" where
  "bit_length n = (if n = 0 then 0 else Suc (bit_length (n div 2)))"

declare bit_length.simps [simp del]

text \<open>
  The format \<open>:,.2f\<close> applied to an integer converts it to a double first (round to
  nearest, ties to even, 53 bits of mantissa) and prints that value, which is again an
  integer, with thousands separators and two decimals. \<open>float_of_nat\<close> is the value of
  the double; below \<open>2 ^ 53\<close> it is the number itself.
\<close>

definition float_of_nat :: "nat \<Rightarrow> nat" where
  "float_of_nat n =
     (let b = bit_length n in
      if b \<le> 53 then n
      else let e = b - 53; q = n div 2 ^ e; r = n mod 2 ^ e; h = 2 ^ (e - 1);
               q' = (if h < r \<or> (r = h \<and> odd q) then q + 1 else q)
           in q' * 2 ^ e)"

definition format_2f :: "int \<Rightarrow> pystr" where
  "format_2f i =
     (if i < 0 then [45] else []) @ group3 (digits (float_of_nat (nat \<bar>i\<bar>))) @ ascii ''.00''"

section \<open>Result tables\<close>

text \<open>
  A \<open>pandas.DataFrame\<close> as the warehouse connector builds it: named columns in order,
  each of one dtype. Two dtypes are modelled: \<open>int64\<close> (the numeric one; its sum wraps
  around as numpy's does) and \<open>object\<close> holding text. Column names may repeat.
\<close>

datatype column = IntCol "64 word list" | ObjCol "pystr list"

type_synonym dataframe = "(pystr \<times> column) list"

fun col_len :: "column \<Rightarrow> nat" where
  "col_len (IntCol xs) = length xs"
| "col_len (ObjCol xs) = length xs"

definition df_len :: "dataframe \<Rightarrow> nat" where
  \<comment> \<open>\<open>len(df)\<close>, the number of rows\<close>
  "df_len df = (case df of [] \<Rightarrow> 0 | (_, c) # _ \<Rightarrow> col_len c)"

definition df_wf :: "dataframe \<Rightarrow> bool" where
  \<comment> \<open>every column has the length of the index\<close>
  "df_wf df \<longleftrightarrow> list_all (\<lambda>(_, c). col_len c = df_len df) df"

definition df_empty :: "dataframe \<Rightarrow> bool" where
  \<comment> \<open>\<open>df.empty\<close>: no column or no row\<close>
  "df_empty df \<longleftrightarrow> df = [] \<or> df_len df = 0"

fun is_numeric :: "column \<Rightarrow> bool" where
  "is_numeric (IntCol _) = True"
| "is_numeric (ObjCol _) = False"

definition numeric_cols :: "dataframe \<Rightarrow> (pystr \<times> column) list" where
  \<comment> \<open>\<open>df.select_dtypes(include=['number'])\<close>: the numeric columns, in order\<close>
  "numeric_cols df = filter (\<lambda>(_, c). is_numeric c) df"

fun col_sum :: "column \<Rightarrow> 64 word" where
  "col_sum (IntCol xs) = sum_list xs"
| "col_sum (ObjCol xs) = 0"

definition index_error :: exn where
  "index_error = ascii ''single positional indexer is out-of-bounds''"

definition format_error :: exn where
  "format_error = ascii ''Unknown format code '' @ [39] @ ascii ''f'' @ [39] @
     ascii '' for object of type '' @ [39] @ ascii ''str'' @ [39]"

definition series_format_error :: exn where
  "series_format_error = ascii ''unsupported format string passed to Series.__format__''"

fun cell_str :: "column \<Rightarrow> nat \<Rightarrow> exn + pystr" where
  \<comment> \<open>\<open>f"{row.iloc[j]}"\<close> of row \<open>i\<close>\<close>
  "cell_str (IntCol xs) i = (if i < length xs then Inr (str_int (sint (xs ! i))) else Inl index_error)"
| "cell_str (ObjCol xs) i = (if i < length xs then Inr (xs ! i) else Inl index_error)"

fun cell_2f :: "column \<Rightarrow> nat \<Rightarrow> exn + pystr" where
  \<comment> \<open>\<open>f"{row.iloc[j]:,.2f}"\<close> of row \<open>i\<close>; a \<open>str\<close> has no format code \<open>f\<close>\<close>
  "cell_2f (IntCol xs) i = (if i < length xs then Inr (format_2f (sint (xs ! i))) else Inl index_error)"
| "cell_2f (ObjCol xs) i = (if i < length xs then Inl format_error else Inl index_error)"

definition bullet :: pystr where
  \<comment> \<open>the three code points U+00E2 U+20AC U+00A2 that start each line in the source\<close>
  "bullet = [226, 8364, 162]"

definition row_line :: "column \<Rightarrow> column \<Rightarrow> nat \<Rightarrow> exn + pystr" where
  "row_line c0 c1 i =
     (case cell_str c0 i of Inl e \<Rightarrow> Inl e
      | Inr a \<Rightarrow> (case cell_2f c1 i of Inl e \<Rightarrow> Inl e
          | Inr b \<Rightarrow> Inr (bullet @ ascii '' '' @ a @ ascii '': '' @ b @ [10])))"

fun row_lines :: "column \<Rightarrow> column \<Rightarrow> nat list \<Rightarrow> exn + pystr" where
  "row_lines c0 c1 [] = Inr []"
| "row_lines c0 c1 (i # rest) =
     (case row_line c0 c1 i of Inl e \<Rightarrow> Inl e
      | Inr l \<Rightarrow> (case row_lines c0 c1 rest of Inl e \<Rightarrow> Inl e | Inr ls \<Rightarrow> Inr (l @ ls)))"

definition no_data_message :: pystr where
  "no_data_message = ascii ''I couldn'' @ [39] @
     ascii ''t find any data matching your query. Please try rephrasing your question.''"

text \<open>
  \<open>QueryRouter._generate_natural_response\<close> (query_router.py, lines 120-144). The
  arguments \<open>query\<close> and \<open>sql_query\<close> are not used by the body. \<open>df[first_numeric]\<close>
  is a single column only when the name is unique; otherwise it is a frame, its sum a
  \<open>Series\<close>, and the format raises.
\<close>

definition generate_natural_response :: "dataframe option \<Rightarrow> exn + pystr" where
  "generate_natural_response dfo =
     (case dfo of None \<Rightarrow> Inr no_data_message
      | Some df \<Rightarrow>
          if df_empty df then Inr no_data_message
          else
            let summary = ascii ''Found '' @ digits (df_len df) @ ascii '' results. '' in
            if 2 \<le> length df then
              (case numeric_cols df of [] \<Rightarrow> Inr summary
               | (first_numeric, col) # _ \<Rightarrow>
                   if 1 < length (filter (\<lambda>(n, _). n = first_numeric) df)
                   then Inl series_format_error
                   else
                     let total = sint (col_sum col);
                         summary = summary @ ascii ''The total '' @ first_numeric @
                                   ascii '' is '' @ format_2f total @ ascii ''. ''
                     in if df_len df \<le> 10 then
                          (case row_lines (snd (df ! 0)) (snd (df ! 1)) [0..<min 10 (df_len df)] of
                             Inl e \<Rightarrow> Inl e
                           | Inr ls \<Rightarrow> Inr (summary @ ascii ''Here are all the results:'' @ [10, 10] @ ls))
                        else Inr (summary @ ascii ''Top 10 results shown below.''))
            else Inr summary)"

section \<open>Schema catalogue\<close>

text \<open>
  \<open>schema_info\<close> is the dictionary built by \<open>SnowflakeConnector.get_schema_info\<close>:
  table name to the list of column records, each record a dictionary with the keys
  \<open>COLUMN_NAME\<close> and \<open>DATA_TYPE\<close>. Dictionaries keep insertion order, which the
  serialisation follows, so they are association lists.
\<close>

type_synonym schema = "(pystr \<times> (pystr \<times> pystr) list list) list"

definition key_error :: "pystr \<Rightarrow> exn" where
  \<comment> \<open>\<open>str(KeyError(k))\<close> is the key in quotes\<close>
  "key_error k = [39] @ k @ [39]"

definition dict_item :: "(pystr \<times> pystr) list \<Rightarrow> pystr \<Rightarrow> exn + pystr" where
  \<comment> \<open>\<open>d[k]\<close>\<close>
  "dict_item d k = (case map_of d k of None \<Rightarrow> Inl (key_error k) | Some v \<Rightarrow> Inr v)"

definition format_column :: "(pystr \<times> pystr) list \<Rightarrow> exn + pystr" where
  "format_column col =
     (case dict_item col (ascii ''COLUMN_NAME'') of Inl e \<Rightarrow> Inl e
      | Inr n \<Rightarrow> (case dict_item col (ascii ''DATA_TYPE'') of Inl e \<Rightarrow> Inl e
          | Inr t \<Rightarrow> Inr (ascii ''  - '' @ n @ ascii '' ('' @ t @ ascii '')'' @ [10])))"

fun format_columns :: "(pystr \<times> pystr) list list \<Rightarrow> exn + pystr" where
  "format_columns [] = Inr []"
| "format_columns (col # cols) =
     (case format_column col of Inl e \<Rightarrow> Inl e
      | Inr l \<Rightarrow> (case format_columns cols of Inl e \<Rightarrow> Inl e | Inr ls \<Rightarrow> Inr (l @ ls)))"

text \<open>\<open>QueryRouter._format_schema_info\<close> (query_router.py, lines 111-118).\<close>

fun format_schema_info :: "schema \<Rightarrow> exn + pystr" where
  "format_schema_info [] = Inr []"
| "format_schema_info ((table_name, columns) # rest) =
     (case format_columns columns of Inl e \<Rightarrow> Inl e
      | Inr cs \<Rightarrow> (case format_schema_info rest of Inl e \<Rightarrow> Inl e
          | Inr r \<Rightarrow> Inr ([10] @ table_name @ ascii '':'' @ [10] @ cs @ r)))"

section \<open>Collaborators and state\<close>

record document =
  page_content :: pystr
  metadata :: "(pystr \<times> pystr) list"

text \<open>
  A request to the language model is a prompt template with its variables filled in
  (\<open>prompt | llm | StrOutputParser()\<close>, then \<open>invoke\<close>); the three templates of the
  router are the three constructors, their arguments the template variables.
\<close>

datatype prompt =
    ClassificationPrompt pystr
  | ExplanationPrompt pystr pystr
  | SqlPrompt pystr pystr pystr

text \<open>
  What lies outside the repository is a parameter: the language model, the embedding
  model with its similarity, the text splitter, the warehouse cursor and the case
  mapping of Unicode above U+00FF. Each may raise where the real one may.
\<close>

record ('v, 's) env =
  llm :: "prompt \<Rightarrow> exn + pystr"
  embed :: "pystr \<Rightarrow> exn + 'v"
  similarity :: "'v \<Rightarrow> 'v \<Rightarrow> 's"
  split_documents :: "document list \<Rightarrow> document list"
  cursor_execute :: "pystr \<Rightarrow> exn + dataframe"
  unicode_lower :: "pystr \<Rightarrow> pystr"

datatype event = LlmCall prompt | RetrievalCall pystr | WarehouseCall pystr

text \<open>
  The mutable state reachable from a \<open>QueryRouter\<close>: its \<open>schema_info\<close> and the
  \<open>vector_store\<close> of its \<open>rag_engine\<close> (\<open>None\<close> until a store exists). \<open>trace\<close> is
  a ghost field: the calls made to the collaborators, oldest first.
\<close>

record 'v world =
  schema_info :: schema
  vector_store :: "(document \<times> 'v) list option"
  trace :: "event list"

type_synonym ('a, 'v) action = "'v world \<Rightarrow> (exn + 'a) \<times> 'v world"

definition returnA :: "'a \<Rightarrow> ('a, 'v) action" where
  "returnA a = (\<lambda>w. (Inr a, w))"

definition liftA :: "exn + 'a \<Rightarrow> ('a, 'v) action" where
  \<comment> \<open>a computation that touches no state\<close>
  "liftA r = (\<lambda>w. (r, w))"

definition then_do :: "('a, 'v) action \<Rightarrow> ('a \<Rightarrow> ('b, 'v) action) \<Rightarrow> ('b, 'v) action" where
  \<comment> \<open>sequencing: an exception skips the rest\<close>
  "then_do m f = (\<lambda>w. case m w of (Inl e, w') \<Rightarrow> (Inl e, w') | (Inr a, w') \<Rightarrow> f a w')"

definition record_call :: "event \<Rightarrow> 'v world \<Rightarrow> 'v world" where
  "record_call ev w = w\<lparr>trace := trace w @ [ev]\<rparr>"

definition invoke_llm :: "('v, 's) env \<Rightarrow> prompt \<Rightarrow> (pystr, 'v) action" where
  "invoke_llm env p = (\<lambda>w. (llm env p, record_call (LlmCall p) w))"

section \<open>Document store\<close>

text \<open>
  Modelled from the spec: the Document Store. The source keeps it in
  \<open>self.vector_store\<close>, a FAISS index of the library \<open>langchain_community\<close>, whose
  code is not under src/; only its callers \<open>add_documents\<close> and \<open>retrieve_context\<close>
  are. The model follows sections 4.1 and 4.3 of the specification: an exact scan that
  embeds the query, orders the chunks by descending similarity with ties in insertion
  order, and returns the first \<open>k\<close>; insertion embeds the new chunks and appends them.
  A chunk is identified by its position in the store.
\<close>

fun insert_ranked :: "(nat \<Rightarrow> 's::linorder) \<Rightarrow> nat \<Rightarrow> nat list \<Rightarrow> nat list" where
  \<comment> \<open>Modelled from the spec: a later chunk goes behind every chunk that scores at least as high\<close>
  "insert_ranked sc i [] = [i]"
| "insert_ranked sc i (j # js) =
     (if sc j < sc i then i # j # js else j # insert_ranked sc i js)"

definition rank_from :: "(nat \<Rightarrow> 's::linorder) \<Rightarrow> nat list \<Rightarrow> nat list \<Rightarrow> nat list" where
  \<comment> \<open>Modelled from the spec: the scan, continued from a ranking already built\<close>
  "rank_from sc acc is = foldl (\<lambda>acc i. insert_ranked sc i acc) acc is"

definition rank_all :: "(nat \<Rightarrow> 's::linorder) \<Rightarrow> nat \<Rightarrow> nat list" where
  \<comment> \<open>Modelled from the spec: all positions of a store of \<open>n\<close> chunks, best first\<close>
  "rank_all sc n = rank_from sc [] [0..<n]"

definition store_scores :: "('v \<Rightarrow> 'v \<Rightarrow> 's) \<Rightarrow> 'v \<Rightarrow> (document \<times> 'v) list \<Rightarrow> nat \<Rightarrow> 's" where
  \<comment> \<open>Modelled from the spec: the similarity of the query vector to the chunk at a position\<close>
  "store_scores sim v store i = sim v (snd (store ! i))"

definition store_query :: "('v \<Rightarrow> 'v \<Rightarrow> 's::linorder) \<Rightarrow> 'v \<Rightarrow> (document \<times> 'v) list \<Rightarrow> nat \<Rightarrow> nat list" where
  \<comment> \<open>Modelled from the spec: \<open>query(vector, k)\<close>, the positions of the top \<open>k\<close>\<close>
  "store_query sim v store k = take k (rank_all (store_scores sim v store) (length store))"

definition similarity_search ::
  "('v, 's::linorder) env \<Rightarrow> (document \<times> 'v) list \<Rightarrow> pystr \<Rightarrow> nat \<Rightarrow> exn + document list" where
  \<comment> \<open>Modelled from the spec: an empty store, and a request for \<open>k = 0\<close> chunks,
      are answered with the empty list and never fail (section 8 gives both the same
      round trip); otherwise embed the query (a failure is fatal), then query the store\<close>
  "similarity_search env store query k =
     (if store = [] \<or> k = 0 then Inr []
      else case embed env query of Inl e \<Rightarrow> Inl e
        | Inr v \<Rightarrow> Inr (map (\<lambda>i. fst (store ! i)) (store_query (similarity env) v store k)))"

fun embed_all :: "(pystr \<Rightarrow> exn + 'v) \<Rightarrow> document list \<Rightarrow> exn + (document \<times> 'v) list" where
  \<comment> \<open>Modelled from the spec: each chunk with its vector; the first failure is raised\<close>
  "embed_all em [] = Inr []"
| "embed_all em (d # ds) =
     (case em (page_content d) of Inl e \<Rightarrow> Inl e
      | Inr v \<Rightarrow> (case embed_all em ds of Inl e \<Rightarrow> Inl e | Inr rest \<Rightarrow> Inr ((d, v) # rest)))"

definition store_add ::
  "('v, 's) env \<Rightarrow> (document \<times> 'v) list \<Rightarrow> document list \<Rightarrow> exn + (document \<times> 'v) list" where
  \<comment> \<open>Modelled from the spec: \<open>insert\<close>, appending; nothing is stored when an embedding fails\<close>
  "store_add env store docs =
     (case embed_all (embed env) docs of Inl e \<Rightarrow> Inl e | Inr new \<Rightarrow> Inr (store @ new))"

definition from_documents :: "('v, 's) env \<Rightarrow> document list \<Rightarrow> exn + (document \<times> 'v) list" where
  \<comment> \<open>Modelled from the spec: a new store holding the given chunks\<close>
  "from_documents env docs = store_add env [] docs"

section \<open>Retrieval engine\<close>

text \<open>\<open>RAGEngine.add_documents\<close> (rag_engine.py, lines 177-183). A store object is always true.\<close>

definition add_documents :: "('v, 's) env \<Rightarrow> document list \<Rightarrow> (unit, 'v) action" where
  "add_documents env documents = (\<lambda>w.
     let splits = split_documents env documents in
     case vector_store w of
       Some store \<Rightarrow>
         (case store_add env store splits of
            Inl e \<Rightarrow> (Inl e, w)
          | Inr store' \<Rightarrow> (Inr (), w\<lparr>vector_store := Some store'\<rparr>))
     | None \<Rightarrow>
         (case from_documents env splits of
            Inl e \<Rightarrow> (Inl e, w)
          | Inr store' \<Rightarrow> (Inr (), w\<lparr>vector_store := Some store'\<rparr>)))"

text \<open>\<open>RAGEngine.retrieve_context\<close> (rag_engine.py, lines 185-191).\<close>

definition retrieve_context ::
  "('v, 's::linorder) env \<Rightarrow> pystr \<Rightarrow> nat \<Rightarrow> (document list, 'v) action" where
  "retrieve_context env query k = (\<lambda>w.
     case vector_store w of
       None \<Rightarrow> (Inr [], w)
     | Some store \<Rightarrow> (similarity_search env store query k, w))"

fun py_join :: "pystr \<Rightarrow> pystr list \<Rightarrow> pystr" where
  "py_join sep [] = []"
| "py_join sep [x] = x"
| "py_join sep (x # y # ys) = x @ sep @ py_join sep (y # ys)"

definition no_context :: pystr where
  "no_context = ascii ''No relevant context found.''"

definition doc_source :: "document \<Rightarrow> pystr" where
  \<comment> \<open>\<open>doc.metadata.get('source', 'unknown')\<close>\<close>
  "doc_source doc =
     (case map_of (metadata doc) (ascii ''source'') of None \<Rightarrow> ascii ''unknown'' | Some s \<Rightarrow> s)"

text \<open>
  The second half of \<open>RAGEngine.get_relevant_context\<close> (rag_engine.py, lines 197-205),
  which turns the retrieved documents into text.
\<close>

definition format_context :: "document list \<Rightarrow> pystr" where
  "format_context docs =
     (if docs = [] then no_context
      else py_join [10, 10]
        (map (\<lambda>(i, doc). ascii ''Context '' @ digits (i + 1) @ ascii '' (Source: '' @
                          doc_source doc @ ascii ''):'' @ [10] @ page_content doc)
             (enumerate 0 docs)))"

text \<open>\<open>RAGEngine.get_relevant_context\<close> (rag_engine.py, lines 193-205); \<open>k\<close> is the default 3.\<close>

definition get_relevant_context :: "('v, 's::linorder) env \<Rightarrow> pystr \<Rightarrow> (pystr, 'v) action" where
  "get_relevant_context env query = (\<lambda>w.
     then_do (retrieve_context env query 3) (\<lambda>docs. returnA (format_context docs))
       (record_call (RetrievalCall query) w))"

section \<open>Warehouse connector\<close>

text \<open>\<open>SnowflakeConnector.execute_query\<close> (snowflake_connector.py, lines 34-50).\<close>

definition execute_query :: "('v, 's) env \<Rightarrow> pystr \<Rightarrow> (dataframe, 'v) action" where
  "execute_query env query = (\<lambda>w.
     ((case cursor_execute env query of
         Inl e \<Rightarrow> Inl (ascii ''Query execution failed: '' @ e)
       | Inr df \<Rightarrow> Inr df),
      record_call (WarehouseCall query) w))"

section \<open>Query router\<close>

record router_result =
  answer :: pystr
  dataframe :: "dataframe option"
  sql_query :: "pystr option"
  error :: "pystr option"

text \<open>\<open>QueryRouter._classify_query\<close> (query_router.py, lines 47-64).\<close>

definition classify_query :: "('v, 's) env \<Rightarrow> pystr \<Rightarrow> (pystr, 'v) action" where
  "classify_query env query =
     then_do (invoke_llm env (ClassificationPrompt query))
       (\<lambda>response. returnA (py_lower (unicode_lower env) (py_strip response)))"

text \<open>\<open>QueryRouter._generate_sql\<close> (query_router.py, lines 66-109).\<close>

definition generate_sql :: "('v, 's) env \<Rightarrow> pystr \<Rightarrow> pystr \<Rightarrow> (pystr, 'v) action" where
  "generate_sql env query context =
     then_do (\<lambda>w. (format_schema_info (schema_info w), w))
       (\<lambda>schema_str. then_do (invoke_llm env (SqlPrompt schema_str context query))
          (\<lambda>raw. returnA (clean_sql raw)))"

definition greeting :: pystr where
  "greeting = ascii ''Hello! I'' @ [39] @ ascii ''m your Supply Chain Analytics assistant. I can help you analyze sales data, product performance, store metrics, and more. What would you like to know?''"

definition sql_details :: "pystr \<Rightarrow> pystr" where
  "sql_details sql =
     [10, 10] @ ascii ''<details>'' @ [10] @ ascii ''<summary>SQL Query Used</summary>'' @
     [10, 10] @ ascii ''```sql'' @ [10] @ sql @ [10] @ ascii ''```'' @ [10] @ ascii ''</details>''"

definition error_result :: "exn \<Rightarrow> router_result" where
  "error_result e =
     \<lparr>answer = ascii ''I encountered an error processing your query: '' @ e @ [10, 10] @
               ascii ''Please try rephrasing your question or check the Snowflake connection.'',
      dataframe = None, sql_query = None, error = Some e\<rparr>"

text \<open>The body of the \<open>try\<close> block of \<open>QueryRouter.process_query\<close> (lines 150-199).\<close>

definition process_query_body ::
  "('v, 's::linorder) env \<Rightarrow> pystr \<Rightarrow> (router_result, 'v) action" where
  "process_query_body env query =
     then_do (classify_query env query) (\<lambda>query_type.
       if query_type = ascii ''general'' then
         returnA \<lparr>answer = greeting, dataframe = None, sql_query = None, error = None\<rparr>
       else
         then_do (get_relevant_context env query) (\<lambda>context.
           if query_type = ascii ''explanation'' then
             then_do (invoke_llm env (ExplanationPrompt context query)) (\<lambda>answer.
               returnA \<lparr>answer = answer, dataframe = None, sql_query = None, error = None\<rparr>)
           else
             then_do (generate_sql env query context) (\<lambda>sql.
             then_do (execute_query env sql) (\<lambda>df.
             then_do (liftA (generate_natural_response (Some df))) (\<lambda>answer.
               returnA \<lparr>answer = answer @ sql_details sql, dataframe = Some df,
                        sql_query = Some sql, error = None\<rparr>)))))"

text \<open>
  \<open>QueryRouter.process_query\<close> (query_router.py, lines 146-206): the body under
  \<open>except Exception as e\<close>. It returns a result in every case.
\<close>

definition process_query :: "('v, 's::linorder) env \<Rightarrow> pystr \<Rightarrow> 'v world \<Rightarrow> router_result \<times> 'v world" where
  "process_query env query = (\<lambda>w.
     case process_query_body env query w of
       (Inl e, w') \<Rightarrow> (error_result e, w')
     | (Inr r, w') \<Rightarrow> (r, w'))"

section \<open>Auxiliary definitions for the proofs\<close>

definition greeting_result :: router_result where
  "greeting_result = \<lparr>answer = greeting, dataframe = None, sql_query = None, error = None\<rparr>"

definition retrieved :: "('v, 's::linorder) env \<Rightarrow> (document \<times> 'v) list option \<Rightarrow> pystr \<Rightarrow> exn + document list" where
  "retrieved env vs q = (case vs of None \<Rightarrow> Inr [] | Some s \<Rightarrow> similarity_search env s q 3)"

text \<open>
  The environment of a question whose classification call answers \<open>data_query\<close>,
  everything else as in \<open>env\<close>.
\<close>

definition as_data_query :: "('v, 's) env \<Rightarrow> pystr \<Rightarrow> ('v, 's) env" where
  "as_data_query env q = env\<lparr>llm := (llm env)(ClassificationPrompt q := Inr (ascii ''data_query''))\<rparr>"

text \<open>
  The order of the ranking: a chunk comes before another when it scores higher, or
  scores the same and was inserted earlier.
\<close>

definition ranked_before :: "(nat \<Rightarrow> 's::linorder) \<Rightarrow> nat \<Rightarrow> nat \<Rightarrow> bool" where
  "ranked_before sc a b \<longleftrightarrow> sc b < sc a \<or> (sc a = sc b \<and> a < b)"

text \<open>The chunks a state holds, in insertion order; none before a store exists.\<close>

definition store_chunks :: "'v world \<Rightarrow> (document \<times> 'v) list" where
  "store_chunks w = (case vector_store w of None \<Rightarrow> [] | Some s \<Rightarrow> s)"

text \<open>A small concrete environment and state, to run the router on.\<close>

definition demo_env ::
  "(prompt \<Rightarrow> exn + pystr) \<Rightarrow> (pystr \<Rightarrow> exn + nat) \<Rightarrow> (pystr \<Rightarrow> exn + dataframe) \<Rightarrow> (nat, nat) env" where
  "demo_env answers em cursor =
     \<lparr>llm = answers, embed = em,
      similarity = (\<lambda>a b. if a = b then 1 else 0), split_documents = (\<lambda>ds. ds),
      cursor_execute = cursor, unicode_lower = (\<lambda>s. s)\<rparr>"

definition demo_world :: "nat world" where
  "demo_world = \<lparr>schema_info = [], vector_store = None, trace = []\<rparr>"

definition demo_answers :: "pystr \<Rightarrow> exn + pystr \<Rightarrow> prompt \<Rightarrow> exn + pystr" where
  "demo_answers label other p =
     (case p of ClassificationPrompt _ \<Rightarrow> Inr label | ExplanationPrompt _ _ \<Rightarrow> other
      | SqlPrompt _ _ _ \<Rightarrow> other)"

definition demo_doc :: document where
  "demo_doc = \<lparr>page_content = ascii ''Revenue is the sum of TOTAL_AMOUNT.'',
                metadata = [(ascii ''source'', ascii ''metrics'')]\<rparr>"

definition demo_store :: "(document \<times> nat) list" where
  "demo_store = [(demo_doc\<lparr>page_content := ascii ''a''\<rparr>, 5),
                 (demo_doc\<lparr>page_content := ascii ''b''\<rparr>, 7),
                 (demo_doc\<lparr>page_content := ascii ''c''\<rparr>, 7)]"

section \<open>Facts about strings\<close>

lemma py_strip_core:
  assumes "\<forall>c\<in>set w1. py_isspace c" and "\<forall>c\<in>set w2. py_isspace c"
    and "s \<noteq> []" and "\<not> py_isspace (hd s)" and "\<not> py_isspace (last s)"
  shows "py_strip (w1 @ s @ w2) = s"
proof -
  have a: "dropWhile py_isspace (w1 @ s @ w2) = s @ w2"
    using assms(1,3,4) by (cases s) (simp_all add: dropWhile_append)
  have b: "dropWhile py_isspace (rev w2 @ rev s) = rev s"
  proof -
    have "dropWhile py_isspace (rev w2 @ rev s) = dropWhile py_isspace (rev s)"
      using assms(2) by (simp add: dropWhile_append)
    also have "\<dots> = rev s"
      using assms(3,5) by (cases "rev s") (simp_all add: last_rev [symmetric] hd_rev)
    finally show ?thesis .
  qed
  show ?thesis
    by (simp add: py_strip_def a b)
qed

lemma py_strip_nil [simp]: "py_strip [] = []"
  by (simp add: py_strip_def)

lemma py_strip_all_space:
  "\<forall>c\<in>set w. py_isspace c \<Longrightarrow> py_strip w = []"
proof -
  assume "\<forall>c\<in>set w. py_isspace c"
  then have "dropWhile py_isspace w = []"
    by (simp add: dropWhile_eq_Nil_conv)
  then show ?thesis
    unfolding py_strip_def by (simp only: rev.simps dropWhile.simps)
qed

lemma py_strip_trimmed:
  "s = [] \<or> (\<not> py_isspace (hd s) \<and> \<not> py_isspace (last s)) \<Longrightarrow> py_strip s = s"
  using py_strip_core [of "[]" "[]" s] by (cases "s = []") auto

section \<open>Clean-up of the generated SQL: proofs\<close>

lemma last_dropWhile_ne: "dropWhile P xs \<noteq> [] \<Longrightarrow> last (dropWhile P xs) = last xs"
  by (induction xs) (auto split: if_splits)

lemma py_strip_ends:
  "py_strip s = [] \<or> (\<not> py_isspace (hd (py_strip s)) \<and> \<not> py_isspace (last (py_strip s)))"
proof (cases "py_strip s = []")
  case True
  then show ?thesis by simp
next
  case False
  define t where "t = dropWhile py_isspace s"
  define u where "u = dropWhile py_isspace (rev t)"
  have su: "py_strip s = rev u"
    by (simp add: py_strip_def t_def u_def)
  with False have une: "u \<noteq> []" by simp
  then have tne: "t \<noteq> []" by (auto simp: u_def)
  have "\<not> py_isspace (hd u)"
    using une unfolding u_def by (rule hd_dropWhile)
  then have l: "\<not> py_isspace (last (py_strip s))"
    using une by (simp add: su last_rev)
  have "last u = last (rev t)"
    using une unfolding u_def by (rule last_dropWhile_ne)
  also have "\<dots> = hd t" using tne by (simp add: last_rev)
  finally have "last u = hd t" .
  moreover have "\<not> py_isspace (hd t)"
    using tne unfolding t_def by (rule hd_dropWhile)
  ultimately have "\<not> py_isspace (hd (py_strip s))"
    using une by (simp add: su hd_rev)
  with l show ?thesis by simp
qed

lemma py_strip_idem: "py_strip (py_strip s) = py_strip s"
  using py_strip_ends [of s] by (auto intro: py_strip_trimmed)

lemma startswith_append [simp]: "startswith (p @ s) p"
  by (simp add: startswith_def)

lemma endswith_append [simp]: "endswith (s @ p) p"
  by (simp add: endswith_def)

lemma fence_simps: "fence = [96, 96, 96]" "fence_sql = [96, 96, 96, 115, 113, 108]"
  by (simp_all add: fence_def fence_sql_def ascii_def)

lemma not_space_96: "\<not> py_isspace 96"
  by (simp add: py_isspace_def)

lemma strip_fences_closing:
  "\<not> startswith (inner @ fence) fence \<Longrightarrow> strip_fences (inner @ fence) = inner"
  by (simp add: strip_fences_def Let_def) (simp add: fence_simps)

lemma clean_sql_tagged:
  assumes "take 1 inner \<noteq> [96]"
  shows "clean_sql (fence_sql @ inner @ fence) = py_strip inner"
proof -
  have s0: "py_strip (fence_sql @ inner @ fence) = fence_sql @ inner @ fence"
    by (rule py_strip_trimmed) (simp add: fence_simps not_space_96)
  have step: "clean_sql (fence_sql @ inner @ fence) = py_strip (strip_fences (inner @ fence))"
    by (simp add: clean_sql_def s0 Let_def strip_fences_def) (simp add: fence_simps)
  show ?thesis
  proof (cases inner)
    case Nil
    then show ?thesis
      unfolding step by (simp add: strip_fences_def fence_simps startswith_def endswith_def)
  next
    case (Cons c r)
    with assms have c: "c \<noteq> 96" by simp
    have "\<not> startswith (inner @ fence) fence"
      using c Cons by (simp add: startswith_def fence_simps)
    then show ?thesis
      unfolding step by (simp add: strip_fences_closing)
  qed
qed

lemma clean_sql_untagged:
  assumes "take 3 inner \<noteq> ascii ''sql''"
  shows "clean_sql (fence @ inner @ fence) = py_strip inner"
proof -
  have s0: "py_strip (fence @ inner @ fence) = fence @ inner @ fence"
    by (rule py_strip_trimmed) (simp add: fence_simps not_space_96)
  have "\<not> startswith (fence @ inner @ fence) fence_sql"
  proof (cases inner)
    case Nil
    then show ?thesis by (simp add: startswith_def fence_simps)
  next
    case c1: (Cons a r1)
    show ?thesis
    proof (cases r1)
      case Nil
      with c1 show ?thesis by (simp add: startswith_def fence_simps)
    next
      case c2: (Cons b r2)
      show ?thesis
      proof (cases r2)
        case Nil
        with c1 c2 show ?thesis by (simp add: startswith_def fence_simps)
      next
        case (Cons c r3)
        with c1 c2 assms show ?thesis
          by (simp add: startswith_def fence_simps ascii_def)
      qed
    qed
  qed
  then show ?thesis
    by (simp add: clean_sql_def s0 Let_def) (simp add: fence_simps)
qed

lemma clean_sql_unfenced:
  assumes "\<not> startswith (py_strip raw) fence" and "\<not> endswith (py_strip raw) fence"
  shows "clean_sql raw = py_strip raw"
proof -
  have "\<not> startswith (py_strip raw) fence_sql"
    using assms(1) by (auto simp: startswith_def fence_simps dest: arg_cong [where f = "take 3"])
  with assms show ?thesis
    by (simp add: clean_sql_def Let_def py_strip_idem)
qed

lemma clean_sql_cong: "py_strip a = py_strip b \<Longrightarrow> clean_sql a = clean_sql b"
  by (simp add: clean_sql_def)

lemma py_strip_fenced:
  assumes "\<forall>c\<in>set w1. py_isspace c" and "\<forall>c\<in>set w2. py_isspace c"
  shows "py_strip (w1 @ (fence @ s @ fence) @ w2) = py_strip (fence @ s @ fence)"
proof -
  have ne: "fence @ s @ fence \<noteq> []" "\<not> py_isspace (hd (fence @ s @ fence))"
    "\<not> py_isspace (last (fence @ s @ fence))"
    by (simp_all add: fence_simps not_space_96)
  have "py_strip (w1 @ (fence @ s @ fence) @ w2) = fence @ s @ fence"
    using assms ne by (rule py_strip_core)
  moreover have "py_strip (fence @ s @ fence) = fence @ s @ fence"
    using ne by (intro py_strip_trimmed) simp
  ultimately show ?thesis by simp
qed

lemma fence_sql_fence: "fence_sql = fence @ ascii ''sql''"
  by (simp add: fence_def fence_sql_def ascii_def)

text \<open>
  C2 (amended). Only the tag \<open>sql\<close> is recognised. A response made of optional
  whitespace, the opening fence \<open>```sql\<close>, an inner text that does not begin with a
  backquote, the closing fence and optional whitespace is cleaned to the inner text
  trimmed of surrounding whitespace; so is a response with the bare opening fence
  \<open>```\<close> when the inner text does not begin with \<open>sql\<close>. A response that, once
  trimmed, neither begins nor ends with a fence (in particular one with no fence at all)
  is returned trimmed of surrounding whitespace, and unchanged when it has none.
\<close>

theorem clean_sql_fences:
  "((\<forall>c\<in>set w1. py_isspace c) \<and> (\<forall>c\<in>set w2. py_isspace c) \<and> take 1 inner \<noteq> [96] \<longrightarrow>
      clean_sql (w1 @ (fence_sql @ inner @ fence) @ w2) = py_strip inner) \<and>
   ((\<forall>c\<in>set w1. py_isspace c) \<and> (\<forall>c\<in>set w2. py_isspace c) \<and> take 3 inner \<noteq> ascii ''sql'' \<longrightarrow>
      clean_sql (w1 @ (fence @ inner @ fence) @ w2) = py_strip inner) \<and>
   (\<not> startswith (py_strip raw) fence \<and> \<not> endswith (py_strip raw) fence \<longrightarrow>
      clean_sql raw = py_strip raw) \<and>
   (\<not> startswith raw fence \<and> \<not> endswith raw fence \<and>
    (raw = [] \<or> (\<not> py_isspace (hd raw) \<and> \<not> py_isspace (last raw))) \<longrightarrow>
      clean_sql raw = raw)"
proof (intro conjI impI)
  assume h: "(\<forall>c\<in>set w1. py_isspace c) \<and> (\<forall>c\<in>set w2. py_isspace c) \<and> take 1 inner \<noteq> [96]"
  then have "py_strip (w1 @ (fence @ (ascii ''sql'' @ inner) @ fence) @ w2)
      = py_strip (fence @ (ascii ''sql'' @ inner) @ fence)"
    by (intro py_strip_fenced) simp_all
  then have "clean_sql (w1 @ (fence_sql @ inner @ fence) @ w2) = clean_sql (fence_sql @ inner @ fence)"
    by (intro clean_sql_cong) (simp add: fence_sql_fence)
  with h show "clean_sql (w1 @ (fence_sql @ inner @ fence) @ w2) = py_strip inner"
    by (simp add: clean_sql_tagged)
next
  assume h: "(\<forall>c\<in>set w1. py_isspace c) \<and> (\<forall>c\<in>set w2. py_isspace c) \<and> take 3 inner \<noteq> ascii ''sql''"
  then have "clean_sql (w1 @ (fence @ inner @ fence) @ w2) = clean_sql (fence @ inner @ fence)"
    by (intro clean_sql_cong py_strip_fenced) simp_all
  with h show "clean_sql (w1 @ (fence @ inner @ fence) @ w2) = py_strip inner"
    by (simp add: clean_sql_untagged)
next
  assume "\<not> startswith (py_strip raw) fence \<and> \<not> endswith (py_strip raw) fence"
  then show "clean_sql raw = py_strip raw"
    by (simp add: clean_sql_unfenced)
next
  assume h: "\<not> startswith raw fence \<and> \<not> endswith raw fence \<and>
    (raw = [] \<or> (\<not> py_isspace (hd raw) \<and> \<not> py_isspace (last raw)))"
  then have "py_strip raw = raw"
    by (intro py_strip_trimmed) simp
  with h show "clean_sql raw = raw"
    using clean_sql_unfenced [of raw] by simp
qed

theorem clean_sql_fences_witness:
  "clean_sql ([32] @ (fence_sql @ ([10] @ ascii ''SELECT 1'' @ [10]) @ fence) @ [10]) = ascii ''SELECT 1'' \<and>
   clean_sql ([] @ (fence @ ascii ''SELECT `a` FROM t'' @ fence) @ []) = ascii ''SELECT `a` FROM t'' \<and>
   clean_sql (ascii ''  SELECT 1 '') = ascii ''SELECT 1'' \<and>
   clean_sql (ascii ''SELECT 1'') = ascii ''SELECT 1''"
proof -
  have e: "py_strip ([10] @ ascii ''SELECT 1'' @ [10]) = ascii ''SELECT 1''"
    "py_strip (ascii ''SELECT `a` FROM t'') = ascii ''SELECT `a` FROM t''"
    "py_strip (ascii ''  SELECT 1 '') = ascii ''SELECT 1''"
    by (simp_all add: py_strip_def py_isspace_def ascii_def)
  have h1: "(\<forall>c\<in>set [32]. py_isspace c) \<and> (\<forall>c\<in>set [10]. py_isspace c) \<and>
      take 1 ([10] @ ascii ''SELECT 1'' @ [10]) \<noteq> [96::nat]"
    by (simp add: py_isspace_def)
  have h2: "(\<forall>c\<in>set ([]::pystr). py_isspace c) \<and> (\<forall>c\<in>set ([]::pystr). py_isspace c) \<and>
      take 3 (ascii ''SELECT `a` FROM t'') \<noteq> ascii ''sql''"
    by (simp add: ascii_def)
  have h3: "\<not> startswith (py_strip (ascii ''  SELECT 1 '')) fence \<and>
      \<not> endswith (py_strip (ascii ''  SELECT 1 '')) fence"
    unfolding e by (simp add: startswith_def endswith_def fence_def ascii_def)
  have h4: "\<not> startswith (ascii ''SELECT 1'') fence \<and> \<not> endswith (ascii ''SELECT 1'') fence \<and>
      (ascii ''SELECT 1'' = [] \<or>
       (\<not> py_isspace (hd (ascii ''SELECT 1'')) \<and> \<not> py_isspace (last (ascii ''SELECT 1''))))"
    by (simp add: startswith_def endswith_def fence_def ascii_def py_isspace_def)
  note t = clean_sql_fences [of "[32]" "[10]" "[10] @ ascii ''SELECT 1'' @ [10]" "ascii ''  SELECT 1 ''"]
    clean_sql_fences [of "[]" "[]" "ascii ''SELECT `a` FROM t''" "ascii ''SELECT 1''"]
  from t(1) h1 have "clean_sql ([32] @ (fence_sql @ ([10] @ ascii ''SELECT 1'' @ [10]) @ fence) @ [10])
      = py_strip ([10] @ ascii ''SELECT 1'' @ [10])" by blast
  moreover from t(2) h2 have "clean_sql ([] @ (fence @ ascii ''SELECT `a` FROM t'' @ fence) @ [])
      = py_strip (ascii ''SELECT `a` FROM t'')" by blast
  moreover from t(1) h3 have "clean_sql (ascii ''  SELECT 1 '') = py_strip (ascii ''  SELECT 1 '')" by blast
  moreover from t(2) h4 have "clean_sql (ascii ''SELECT 1'') = ascii ''SELECT 1''" by blast
  ultimately show ?thesis
    by (simp only: e)
qed

text \<open>
  C2 as stated fails twice: a response without any fence is not returned unchanged when
  it carries surrounding whitespace, and a language tag other than \<open>sql\<close> stays in the
  query.
\<close>

theorem clean_sql_counterexample:
  "clean_sql (ascii '' SELECT 1'') \<noteq> ascii '' SELECT 1'' \<and>
   clean_sql (ascii ''```python'' @ [10] @ ascii ''SELECT 1'' @ [10] @ ascii ''```'')
     = ascii ''python'' @ [10] @ ascii ''SELECT 1''"
  by (simp add: clean_sql_def ascii_def py_strip_def py_isspace_def startswith_def
      endswith_def fence_def fence_sql_def Let_def)

section \<open>Summaries of result tables: proofs\<close>

lemma digits_small: "n < 10 \<Longrightarrow> digits n = [48 + n]"
  by (simp add: digits.simps)

lemma digits_15: "digits 15 = [49, 53]"
  by (simp add: digits.simps)

lemma format_2f_values:
  "format_2f 10 = ascii ''10.00''" "format_2f 20 = ascii ''20.00''"
  "format_2f 30 = ascii ''30.00''" "format_2f 60 = ascii ''60.00''"
  by (simp_all add: format_2f_def float_of_nat_def bit_length.simps digits.simps group3.simps ascii_def Let_def)

lemma summary_one_column:
  "col_len c \<noteq> 0 \<Longrightarrow>
   generate_natural_response (Some [(n, c)]) = Inr (ascii ''Found '' @ digits (col_len c) @ ascii '' results. '')"
  by (simp add: generate_natural_response_def df_empty_def df_len_def)

lemma summary_two_columns_short:
  assumes "n0 \<noteq> n1"
  shows "generate_natural_response (Some [(n0, ObjCol [a, b, c]), (n1, IntCol [10, 20, 30])]) =
    Inr (ascii ''Found 3 results. The total '' @ n1 @ ascii '' is 60.00. Here are all the results:'' @ [10, 10] @
         bullet @ ascii '' '' @ a @ ascii '': 10.00'' @ [10] @
         bullet @ ascii '' '' @ b @ ascii '': 20.00'' @ [10] @
         bullet @ ascii '' '' @ c @ ascii '': 30.00'' @ [10])"
proof -
  have total: "sint (col_sum (IntCol [10, 20, 30])) = 60"
    by simp
  have rows: "row_lines (ObjCol [a, b, c]) (IntCol [10, 20, 30]) [0, Suc 0, Suc (Suc 0)] =
    Inr (bullet @ ascii '' '' @ a @ ascii '': 10.00'' @ [10] @
         bullet @ ascii '' '' @ b @ ascii '': 20.00'' @ [10] @
         bullet @ ascii '' '' @ c @ ascii '': 30.00'' @ [10])"
    by (simp add: row_line_def format_2f_values) (simp add: ascii_def)
  show ?thesis
    using assms
    by (simp add: generate_natural_response_def df_empty_def df_len_def numeric_cols_def
        digits_small format_2f_values rows total Let_def del: col_sum.simps row_lines.simps)
       (simp add: ascii_def)
qed

lemma summary_two_columns_long:
  assumes "n0 \<noteq> n1" and "length labels = 15" and "length vs = 15"
  shows "generate_natural_response (Some [(n0, ObjCol labels), (n1, IntCol vs)]) =
    Inr (ascii ''Found 15 results. The total '' @ n1 @ ascii '' is '' @ format_2f (sint (sum_list vs)) @
         ascii ''. Top 10 results shown below.'')"
  using assms
  by (simp add: generate_natural_response_def df_empty_def df_len_def numeric_cols_def
        digits_15 Let_def) (simp add: ascii_def)

text \<open>
  On a table whose columns all have the length of the index, as every DataFrame has,
  the summary never reads a cell out of range.
\<close>

lemma error_texts_distinct:
  "format_error \<noteq> index_error" "series_format_error \<noteq> index_error"
  by (simp_all add: format_error_def series_format_error_def index_error_def ascii_def)

lemma row_line_in_range:
  "i < col_len c0 \<Longrightarrow> i < col_len c1 \<Longrightarrow> row_line c0 c1 i \<noteq> Inl index_error"
  by (cases c0; cases c1) (simp_all add: row_line_def error_texts_distinct)

lemma row_lines_in_range:
  "\<forall>i\<in>set rows. i < col_len c0 \<and> i < col_len c1 \<Longrightarrow> row_lines c0 c1 rows \<noteq> Inl index_error"
proof (induction rows)
  case Nil
  then show ?case by simp
next
  case (Cons i rows)
  then have "row_line c0 c1 i \<noteq> Inl index_error" "row_lines c0 c1 rows \<noteq> Inl index_error"
    by (simp_all add: row_line_in_range)
  then show ?case
    by (auto split: sum.splits)
qed

lemma summary_never_out_of_bounds:
  assumes "df_wf df"
  shows "generate_natural_response (Some df) \<noteq> Inl index_error"
proof (cases "2 \<le> length df")
  case False
  then show ?thesis
    by (simp add: generate_natural_response_def Let_def)
next
  case True
  then have "0 < length df" "1 < length df"
    by linarith+
  then have "df ! 0 \<in> set df" "df ! 1 \<in> set df"
    by (simp_all only: nth_mem)
  with assms have len: "col_len (snd (df ! 0)) = df_len df" "col_len (snd (df ! 1)) = df_len df"
    by (auto simp: df_wf_def list_all_iff)
  have "row_lines (snd (df ! 0)) (snd (df ! 1)) [0..<min 10 (df_len df)] \<noteq> Inl index_error"
    by (rule row_lines_in_range) (simp only: len, simp)
  then show ?thesis
    by (auto simp: generate_natural_response_def Let_def error_texts_distinct
        split: list.splits sum.splits)
qed

text \<open>
  C3 (amended). The total and the rows are written only for a table of at least two
  columns. For a table whose first column holds labels and whose second column is the
  only numeric one, with the values 10, 20, 30, the summary states the total 60.00 and
  lists all three rows; with 15 rows it states the total and that the top 10 results are
  shown. For the table that has the numeric column alone, the summary is the row count.
\<close>

theorem summary_numeric_column:
  "(n0 \<noteq> n1 \<longrightarrow>
      generate_natural_response (Some [(n0, ObjCol [a, b, c]), (n1, IntCol [10, 20, 30])]) =
      Inr (ascii ''Found 3 results. The total '' @ n1 @
           ascii '' is 60.00. Here are all the results:'' @ [10, 10] @
           bullet @ ascii '' '' @ a @ ascii '': 10.00'' @ [10] @
           bullet @ ascii '' '' @ b @ ascii '': 20.00'' @ [10] @
           bullet @ ascii '' '' @ c @ ascii '': 30.00'' @ [10])) \<and>
   (n0 \<noteq> n1 \<and> length labels = 15 \<and> length vs = 15 \<longrightarrow>
      generate_natural_response (Some [(n0, ObjCol labels), (n1, IntCol vs)]) =
      Inr (ascii ''Found 15 results. The total '' @ n1 @ ascii '' is '' @
           format_2f (sint (sum_list vs)) @ ascii ''. Top 10 results shown below.'')) \<and>
   generate_natural_response (Some [(n1, IntCol [10, 20, 30])]) = Inr (ascii ''Found 3 results. '')"
proof (intro conjI impI)
  assume "n0 \<noteq> n1"
  then show "generate_natural_response (Some [(n0, ObjCol [a, b, c]), (n1, IntCol [10, 20, 30])]) =
      Inr (ascii ''Found 3 results. The total '' @ n1 @
           ascii '' is 60.00. Here are all the results:'' @ [10, 10] @
           bullet @ ascii '' '' @ a @ ascii '': 10.00'' @ [10] @
           bullet @ ascii '' '' @ b @ ascii '': 20.00'' @ [10] @
           bullet @ ascii '' '' @ c @ ascii '': 30.00'' @ [10])"
    by (rule summary_two_columns_short)
next
  assume "n0 \<noteq> n1 \<and> length labels = 15 \<and> length vs = 15"
  then show "generate_natural_response (Some [(n0, ObjCol labels), (n1, IntCol vs)]) =
      Inr (ascii ''Found 15 results. The total '' @ n1 @ ascii '' is '' @
           format_2f (sint (sum_list vs)) @ ascii ''. Top 10 results shown below.'')"
    by (simp add: summary_two_columns_long)
next
  show "generate_natural_response (Some [(n1, IntCol [10, 20, 30])]) = Inr (ascii ''Found 3 results. '')"
    by (simp add: summary_one_column digits_small) (simp add: ascii_def)
qed

theorem summary_numeric_column_witness:
  "generate_natural_response
     (Some [(ascii ''PRODUCT'', ObjCol [ascii ''A'', ascii ''B'', ascii ''C'']),
            (ascii ''REVENUE'', IntCol [10, 20, 30])]) =
   Inr (ascii ''Found 3 results. The total REVENUE is 60.00. Here are all the results:'' @ [10, 10] @
        bullet @ ascii '' A: 10.00'' @ [10] @ bullet @ ascii '' B: 20.00'' @ [10] @
        bullet @ ascii '' C: 30.00'' @ [10]) \<and>
   generate_natural_response
     (Some [(ascii ''PRODUCT'', ObjCol (replicate 15 (ascii ''A''))),
            (ascii ''REVENUE'', IntCol (replicate 15 1000))]) =
   Inr (ascii ''Found 15 results. The total REVENUE is 15,000.00. Top 10 results shown below.'')"
proof -
  have ne: "ascii ''PRODUCT'' \<noteq> ascii ''REVENUE''"
    by (simp add: ascii_def)
  have len: "ascii ''PRODUCT'' \<noteq> ascii ''REVENUE'' \<and>
      length (replicate 15 (ascii ''A'')) = 15 \<and> length (replicate 15 (1000 :: 64 word)) = 15"
    using ne by simp
  have total: "format_2f (sint (sum_list (replicate 15 (1000 :: 64 word)))) = ascii ''15,000.00''"
    by (simp add: sum_list_replicate format_2f_def float_of_nat_def bit_length.simps
        digits.simps group3.simps ascii_def Let_def)
  note t = summary_numeric_column [of "ascii ''PRODUCT''" "ascii ''REVENUE''" "ascii ''A''"
      "ascii ''B''" "ascii ''C''" "replicate 15 (ascii ''A'')" "replicate 15 1000"]
  from t ne have "generate_natural_response
     (Some [(ascii ''PRODUCT'', ObjCol [ascii ''A'', ascii ''B'', ascii ''C'']),
            (ascii ''REVENUE'', IntCol [10, 20, 30])]) =
     Inr (ascii ''Found 3 results. The total '' @ ascii ''REVENUE'' @
           ascii '' is 60.00. Here are all the results:'' @ [10, 10] @
           bullet @ ascii '' '' @ ascii ''A'' @ ascii '': 10.00'' @ [10] @
           bullet @ ascii '' '' @ ascii ''B'' @ ascii '': 20.00'' @ [10] @
           bullet @ ascii '' '' @ ascii ''C'' @ ascii '': 30.00'' @ [10])"
    by blast
  moreover from t len have "generate_natural_response
     (Some [(ascii ''PRODUCT'', ObjCol (replicate 15 (ascii ''A''))),
            (ascii ''REVENUE'', IntCol (replicate 15 1000))]) =
     Inr (ascii ''Found 15 results. The total '' @ ascii ''REVENUE'' @ ascii '' is '' @
           format_2f (sint (sum_list (replicate 15 (1000 :: 64 word)))) @
           ascii ''. Top 10 results shown below.'')"
    by blast
  ultimately show ?thesis
    by (simp add: total) (simp add: ascii_def)
qed

text \<open>
  C3 as stated fails: for the table whose single column holds 10, 20, 30 the summary is
  the row count alone, with neither the total 60.00 nor the rows.
\<close>

theorem summary_numeric_column_counterexample:
  "generate_natural_response (Some [(ascii ''REVENUE'', IntCol [10, 20, 30])]) =
   Inr (ascii ''Found 3 results. '')"
  by (simp add: summary_one_column digits_small) (simp add: ascii_def)

text \<open>
  C10 (amended). For every table with at least one row and fewer than two columns, the
  summary is the row count sentence alone, also when the column is numeric; the same
  holds for every table with rows and no numeric column. So the total and the rows
  appear only for tables with at least two columns and a numeric column. A table
  without rows (or without columns) is answered by the fixed message that no data was
  found.
\<close>

theorem summary_row_count_only:
  "(\<not> df_empty df \<and> (length df < 2 \<or> numeric_cols df = []) \<longrightarrow>
      generate_natural_response (Some df) =
      Inr (ascii ''Found '' @ digits (df_len df) @ ascii '' results. '')) \<and>
   (df_empty df \<longrightarrow> generate_natural_response (Some df) = Inr no_data_message)"
  by (simp add: generate_natural_response_def Let_def)

theorem summary_row_count_only_witness:
  "generate_natural_response (Some [(ascii ''REVENUE'', IntCol [10, 20, 30])]) =
     Inr (ascii ''Found 3 results. '') \<and>
   generate_natural_response (Some [(ascii ''REVENUE'', ObjCol [])]) = Inr no_data_message"
proof -
  have h1: "\<not> df_empty [(ascii ''REVENUE'', IntCol [10, 20, 30])] \<and>
      (length [(ascii ''REVENUE'', IntCol [10, 20, 30])] < 2 \<or>
       numeric_cols [(ascii ''REVENUE'', IntCol [10, 20, 30])] = [])"
    by (simp add: df_empty_def df_len_def)
  have h2: "df_empty [(ascii ''REVENUE'', ObjCol [])]"
    by (simp add: df_empty_def df_len_def)
  have d: "digits (df_len [(ascii ''REVENUE'', IntCol [10, 20, 30])]) = [51]"
    by (simp add: df_len_def digits_small)
  from summary_row_count_only [of "[(ascii ''REVENUE'', IntCol [10, 20, 30])]"] h1
  have "generate_natural_response (Some [(ascii ''REVENUE'', IntCol [10, 20, 30])]) =
      Inr (ascii ''Found '' @ digits (df_len [(ascii ''REVENUE'', IntCol [10, 20, 30])]) @
           ascii '' results. '')"
    by blast
  moreover from summary_row_count_only [of "[(ascii ''REVENUE'', ObjCol [])]"] h2
  have "generate_natural_response (Some [(ascii ''REVENUE'', ObjCol [])]) = Inr no_data_message"
    by blast
  ultimately show ?thesis
    by (simp add: d) (simp add: ascii_def)
qed

text \<open>
  C10 as stated fails for a table without rows: a query that matches nothing returns one
  column and no row, and the answer is the no-data message, not a row count.
\<close>

theorem summary_row_count_only_counterexample:
  "generate_natural_response (Some [(ascii ''REVENUE'', ObjCol [])]) = Inr no_data_message \<and>
   no_data_message \<noteq> ascii ''Found 0 results. ''"
  by (simp add: generate_natural_response_def df_empty_def df_len_def no_data_message_def ascii_def)

section \<open>Query router: proofs\<close>

lemma record_call_fields [simp]:
  "schema_info (record_call ev w) = schema_info w"
  "vector_store (record_call ev w) = vector_store w"
  "trace (record_call ev w) = trace w @ [ev]"
  by (simp_all add: record_call_def)

lemma then_do_Inl: "m w = (Inl e, w') \<Longrightarrow> then_do m f w = (Inl e, w')"
  by (simp add: then_do_def)

lemma then_do_Inr: "m w = (Inr a, w') \<Longrightarrow> then_do m f w = f a w'"
  by (simp add: then_do_def)

lemma returnA_run [simp]: "returnA a w = (Inr a, w)"
  by (simp add: returnA_def)

lemma liftA_run [simp]: "liftA r w = (r, w)"
  by (simp add: liftA_def)

lemma invoke_llm_run: "invoke_llm env p w = (llm env p, record_call (LlmCall p) w)"
  by (simp add: invoke_llm_def)

lemma classify_query_run:
  "classify_query env q w =
    ((case llm env (ClassificationPrompt q) of Inl e \<Rightarrow> Inl e
      | Inr r \<Rightarrow> Inr (py_lower (unicode_lower env) (py_strip r))),
     record_call (LlmCall (ClassificationPrompt q)) w)"
  by (simp add: classify_query_def then_do_def invoke_llm_def split: sum.splits)

lemma get_relevant_context_run:
  "get_relevant_context env q w =
    ((case retrieved env (vector_store w) q of Inl e \<Rightarrow> Inl e
      | Inr docs \<Rightarrow> Inr (format_context docs)),
     record_call (RetrievalCall q) w)"
  by (simp add: get_relevant_context_def retrieve_context_def retrieved_def then_do_def
      split: sum.splits option.splits)

lemma generate_sql_run:
  "generate_sql env q ctx w =
    (case format_schema_info (schema_info w) of Inl e \<Rightarrow> (Inl e, w)
     | Inr sch \<Rightarrow>
         ((case llm env (SqlPrompt sch ctx q) of Inl e \<Rightarrow> Inl e | Inr raw \<Rightarrow> Inr (clean_sql raw)),
          record_call (LlmCall (SqlPrompt sch ctx q)) w))"
  by (simp add: generate_sql_def then_do_def invoke_llm_def split: sum.splits)

lemma execute_query_run:
  "execute_query env sql w =
    ((case cursor_execute env sql of Inl e \<Rightarrow> Inl (ascii ''Query execution failed: '' @ e)
      | Inr df \<Rightarrow> Inr df),
     record_call (WarehouseCall sql) w)"
  by (simp add: execute_query_def)

lemmas run_simps = process_query_def process_query_body_def classify_query_run
  get_relevant_context_run generate_sql_run execute_query_run invoke_llm_run
  then_do_def greeting_result_def Let_def

lemma process_query_unfold:
  "process_query env q w =
    (let w1 = record_call (LlmCall (ClassificationPrompt q)) w in
     case llm env (ClassificationPrompt q) of
       Inl e \<Rightarrow> (error_result e, w1)
     | Inr r \<Rightarrow>
         let c = py_lower (unicode_lower env) (py_strip r) in
         if c = ascii ''general'' then (greeting_result, w1)
         else
           let w2 = record_call (RetrievalCall q) w1 in
           case retrieved env (vector_store w) q of
             Inl e \<Rightarrow> (error_result e, w2)
           | Inr docs \<Rightarrow>
               let ctx = format_context docs in
               if c = ascii ''explanation'' then
                 (let w3 = record_call (LlmCall (ExplanationPrompt ctx q)) w2 in
                  case llm env (ExplanationPrompt ctx q) of
                    Inl e \<Rightarrow> (error_result e, w3)
                  | Inr a \<Rightarrow> (\<lparr>answer = a, dataframe = None, sql_query = None, error = None\<rparr>, w3))
               else
                 (case format_schema_info (schema_info w) of
                    Inl e \<Rightarrow> (error_result e, w2)
                  | Inr sch \<Rightarrow>
                      let w3 = record_call (LlmCall (SqlPrompt sch ctx q)) w2 in
                      case llm env (SqlPrompt sch ctx q) of
                        Inl e \<Rightarrow> (error_result e, w3)
                      | Inr raw \<Rightarrow>
                          let sql = clean_sql raw; w4 = record_call (WarehouseCall sql) w3 in
                          case cursor_execute env sql of
                            Inl e \<Rightarrow> (error_result (ascii ''Query execution failed: '' @ e), w4)
                          | Inr df \<Rightarrow>
                              (case generate_natural_response (Some df) of
                                 Inl e \<Rightarrow> (error_result e, w4)
                               | Inr a \<Rightarrow> (\<lparr>answer = a @ sql_details sql, dataframe = Some df,
                                            sql_query = Some sql, error = None\<rparr>, w4))))"
proof (cases "llm env (ClassificationPrompt q)")
  case (Inl e)
  then show ?thesis by (simp add: run_simps)
next
  case r: (Inr r)
  define c where "c = py_lower (unicode_lower env) (py_strip r)"
  show ?thesis
  proof (cases "c = ascii ''general''")
    case True
    with r show ?thesis by (simp add: run_simps c_def)
  next
    case ng: False
    show ?thesis
    proof (cases "retrieved env (vector_store w) q")
      case (Inl e)
      with r ng show ?thesis by (simp add: run_simps c_def)
    next
      case docs: (Inr docs)
      show ?thesis
      proof (cases "c = ascii ''explanation''")
        case True
        with r ng docs show ?thesis
          by (cases "llm env (ExplanationPrompt (format_context docs) q)")
             (simp_all add: run_simps c_def)
      next
        case ne: False
        show ?thesis
        proof (cases "format_schema_info (schema_info w)")
          case (Inl e)
          with r ng docs ne show ?thesis by (simp add: run_simps c_def)
        next
          case sch: (Inr sch)
          show ?thesis
          proof (cases "llm env (SqlPrompt sch (format_context docs) q)")
            case (Inl e)
            with r ng docs ne sch show ?thesis by (simp add: run_simps c_def)
          next
            case raw: (Inr raw)
            show ?thesis
            proof (cases "cursor_execute env (clean_sql raw)")
              case (Inl e)
              with r ng docs ne sch raw show ?thesis by (simp add: run_simps c_def)
            next
              case df: (Inr df)
              with r ng docs ne sch raw show ?thesis
                by (cases "generate_natural_response (Some df)") (simp_all add: run_simps c_def)
            qed
          qed
        qed
      qed
    qed
  qed
qed


lemma demo_env_simps [simp]:
  "llm (demo_env a em c) = a" "cursor_execute (demo_env a em c) = c"
  "embed (demo_env a em c) = em" "unicode_lower (demo_env a em c) = (\<lambda>s. s)"
  "similarity (demo_env a em c) = (\<lambda>a b. if a = b then 1 else 0)"
  "split_documents (demo_env a em c) = (\<lambda>ds. ds)"
  by (simp_all add: demo_env_def)

lemma demo_world_simps [simp]:
  "schema_info demo_world = []" "vector_store demo_world = None" "trace demo_world = []"
  by (simp_all add: demo_world_def)

text \<open>
  C1. When the classification of a question is \<open>general\<close>, \<open>process_query\<close> returns
  the fixed greeting with no table, and the only call made to a collaborator is the
  classification request to the language model: no retrieval, no query generation, no
  warehouse call. The state is otherwise untouched.
\<close>

theorem general_returns_greeting:
  assumes "fst (classify_query env q w) = Inr (ascii ''general'')"
  shows "process_query env q w =
    (\<lparr>answer = greeting, dataframe = None, sql_query = None, error = None\<rparr>,
     w\<lparr>trace := trace w @ [LlmCall (ClassificationPrompt q)]\<rparr>)"
proof -
  from assms obtain r where "llm env (ClassificationPrompt q) = Inr r"
    and "py_lower (unicode_lower env) (py_strip r) = ascii ''general''"
    by (auto simp: classify_query_run split: sum.splits)
  then show ?thesis
    by (simp add: process_query_unfold greeting_result_def record_call_def Let_def)
qed

lemma lower_strip_eval:
  "py_lower (\<lambda>s. s) (py_strip (ascii '' General '')) = ascii ''general''"
  by (simp add: py_lower_def py_strip_def py_isspace_def lower_latin1_def ascii_def)

theorem general_returns_greeting_witness:
  "process_query (demo_env (\<lambda>p. Inr (ascii '' General '')) (\<lambda>s. Inr 0) (\<lambda>s. Inr [])) (ascii ''hi'') demo_world =
    (\<lparr>answer = greeting, dataframe = None, sql_query = None, error = None\<rparr>,
     demo_world\<lparr>trace := [LlmCall (ClassificationPrompt (ascii ''hi''))]\<rparr>)"
proof -
  have h: "fst (classify_query (demo_env (\<lambda>p. Inr (ascii '' General '')) (\<lambda>s. Inr 0) (\<lambda>s. Inr [])) (ascii ''hi'') demo_world)
      = Inr (ascii ''general'')"
    by (simp add: classify_query_run lower_strip_eval)
  show ?thesis
    using general_returns_greeting [OF h] by simp
qed

lemma isspace_lower_latin1: "py_isspace (lower_latin1 c) = py_isspace c"
  by (auto simp: py_isspace_def lower_latin1_def)

lemma py_strip_map_lower: "py_strip (map lower_latin1 s) = map lower_latin1 (py_strip s)"
proof -
  have "py_isspace \<circ> lower_latin1 = py_isspace"
    by (rule ext) (simp add: isspace_lower_latin1)
  then show ?thesis
    by (simp add: py_strip_def dropWhile_map rev_map)
qed

lemma py_strip_subset: "set (py_strip s) \<subseteq> set s"
proof -
  have "set (py_strip s) \<subseteq> set (dropWhile py_isspace s)"
    unfolding py_strip_def using set_dropWhileD by fastforce
  also have "\<dots> \<subseteq> set s"
    using set_dropWhileD by fastforce
  finally show ?thesis .
qed

lemma py_lower_latin1:
  assumes "list_all (\<lambda>c. c < 256) r"
  shows "py_lower ext (py_strip r) = py_strip (map lower_latin1 r)"
proof -
  have "list_all (\<lambda>c. c < 256) (py_strip r)"
    using assms py_strip_subset [of r] by (auto simp: list_all_iff)
  then show ?thesis
    by (simp add: py_lower_def py_strip_map_lower)
qed

lemma data_query_label:
  "py_lower ext (py_strip (ascii ''data_query'')) = ascii ''data_query''"
  by (simp add: py_lower_def py_strip_def py_isspace_def lower_latin1_def ascii_def)

lemma as_data_query_simps [simp]:
  "llm (as_data_query env q) (ClassificationPrompt q) = Inr (ascii ''data_query'')"
  "llm (as_data_query env q) (ExplanationPrompt c x) = llm env (ExplanationPrompt c x)"
  "llm (as_data_query env q) (SqlPrompt s c x) = llm env (SqlPrompt s c x)"
  "cursor_execute (as_data_query env q) = cursor_execute env"
  "unicode_lower (as_data_query env q) = unicode_lower env"
  "embed (as_data_query env q) = embed env"
  "similarity (as_data_query env q) = similarity env"
  by (simp_all add: as_data_query_def)

lemma retrieved_as_data_query [simp]:
  "retrieved (as_data_query env q) vs x = retrieved env vs x"
  by (simp add: retrieved_def similarity_search_def split: option.splits sum.splits)

lemma classify_query_Inl:
  "fst (classify_query env q w) = Inl e \<longleftrightarrow> llm env (ClassificationPrompt q) = Inl e"
  by (simp add: classify_query_run split: sum.splits)

lemma classify_query_Inr:
  "fst (classify_query env q w) = Inr c \<longleftrightarrow>
   (\<exists>r. llm env (ClassificationPrompt q) = Inr r \<and> c = py_lower (unicode_lower env) (py_strip r))"
  by (auto simp: classify_query_run split: sum.splits)

lemma get_relevant_context_Inl:
  "fst (get_relevant_context env q w) = Inl e \<longleftrightarrow> retrieved env (vector_store w) q = Inl e"
  by (simp add: get_relevant_context_run split: sum.splits)

lemma get_relevant_context_Inr:
  "fst (get_relevant_context env q w) = Inr ctx \<longleftrightarrow>
   (\<exists>docs. retrieved env (vector_store w) q = Inr docs \<and> ctx = format_context docs)"
  by (auto simp: get_relevant_context_run split: sum.splits)

lemma generate_sql_Inl:
  "fst (generate_sql env q ctx w) = Inl e \<longleftrightarrow>
   format_schema_info (schema_info w) = Inl e \<or>
   (\<exists>sch. format_schema_info (schema_info w) = Inr sch \<and> llm env (SqlPrompt sch ctx q) = Inl e)"
  by (auto simp: generate_sql_run split: sum.splits)

lemma generate_sql_Inr:
  "fst (generate_sql env q ctx w) = Inr sql \<longleftrightarrow>
   (\<exists>sch raw. format_schema_info (schema_info w) = Inr sch \<and>
      llm env (SqlPrompt sch ctx q) = Inr raw \<and> sql = clean_sql raw)"
  by (auto simp: generate_sql_run split: sum.splits)

lemma execute_query_Inl:
  "fst (execute_query env sql w) = Inl e \<longleftrightarrow>
   (\<exists>e'. cursor_execute env sql = Inl e' \<and> e = ascii ''Query execution failed: '' @ e')"
  by (auto simp: execute_query_run split: sum.splits)

lemma execute_query_Inr:
  "fst (execute_query env sql w) = Inr df \<longleftrightarrow> cursor_execute env sql = Inr df"
  by (auto simp: execute_query_run split: sum.splits)

lemmas stage_simps = classify_query_Inl classify_query_Inr get_relevant_context_Inl
  get_relevant_context_Inr generate_sql_Inl generate_sql_Inr execute_query_Inl execute_query_Inr

lemma classify_trims_and_lowers:
  assumes r: "llm env (ClassificationPrompt q) = Inr (w1 @ core @ w2)"
    and w1: "\<forall>c\<in>set w1. py_isspace c" and w2: "\<forall>c\<in>set w2. py_isspace c"
    and core: "core = [] \<or> (\<not> py_isspace (hd core) \<and> \<not> py_isspace (last core))"
    and latin: "list_all (\<lambda>c. c < 256) (w1 @ core @ w2)"
  shows "fst (classify_query env q w) =
    Inr (map (\<lambda>c. if (65 \<le> c \<and> c \<le> 90) \<or> (192 \<le> c \<and> c \<le> 222 \<and> c \<noteq> 215) then c + 32 else c) core)"
proof -
  have s: "py_strip (w1 @ core @ w2) = core"
  proof (cases "core = []")
    case True
    with w1 w2 have "\<forall>c\<in>set (w1 @ core @ w2). py_isspace c" by auto
    then have "py_strip (w1 @ core @ w2) = []" by (rule py_strip_all_space)
    with True show ?thesis by simp
  next
    case False
    with w1 w2 core show ?thesis by (intro py_strip_core) simp_all
  qed
  have "list_all (\<lambda>c. c < 256) core"
    using latin by simp
  then have "py_lower (unicode_lower env) core = map lower_latin1 core"
    by (simp add: py_lower_def)
  also have "lower_latin1 =
      (\<lambda>c. if (65 \<le> c \<and> c \<le> 90) \<or> (192 \<le> c \<and> c \<le> 222 \<and> c \<noteq> 215) then c + 32 else c)"
    by (rule ext) (simp add: lower_latin1_def)
  finally show ?thesis
    using r by (simp add: classify_query_run s)
qed

lemma unknown_label_success:
  assumes "fst (classify_query env q w) = Inr c" "c \<noteq> ascii ''general''" "c \<noteq> ascii ''explanation''"
    and "fst (get_relevant_context env q w) = Inr ctx"
    and "format_schema_info (schema_info w) = Inr sch"
    and "llm env (SqlPrompt sch ctx q) = Inr raw"
    and "cursor_execute env (clean_sql raw) = Inr df"
    and "generate_natural_response (Some df) = Inr a"
  shows "process_query env q w =
    (\<lparr>answer = a @ sql_details (clean_sql raw), dataframe = Some df,
       sql_query = Some (clean_sql raw), error = None\<rparr>,
     w\<lparr>trace := trace w @ [LlmCall (ClassificationPrompt q), RetrievalCall q,
                             LlmCall (SqlPrompt sch ctx q), WarehouseCall (clean_sql raw)]\<rparr>)"
  using assms
  by (auto simp: stage_simps process_query_unfold Let_def record_call_def)

lemma unknown_label_error_origin:
  assumes "fst (classify_query env q w) = Inr c" "c \<noteq> ascii ''general''" "c \<noteq> ascii ''explanation''"
    and "error (fst (process_query env q w)) = Some e"
  shows "fst (get_relevant_context env q w) = Inl e \<or>
    (\<exists>ctx. fst (get_relevant_context env q w) = Inr ctx \<and>
       (fst (generate_sql env q ctx w) = Inl e \<or>
        (\<exists>sql. fst (generate_sql env q ctx w) = Inr sql \<and>
           (fst (execute_query env sql w) = Inl e \<or>
            (\<exists>df. fst (execute_query env sql w) = Inr df \<and>
               generate_natural_response (Some df) = Inl e)))))"
  using assms
  by (auto simp: stage_simps process_query_unfold Let_def error_result_def split: sum.splits)

lemma unknown_label_same_run:
  assumes h: "fst (classify_query env q w) = Inr c \<and> c \<noteq> ascii ''general'' \<and> c \<noteq> ascii ''explanation''"
  shows "process_query env q w = process_query (as_data_query env q) q w"
proof -
  from h obtain r where r: "llm env (ClassificationPrompt q) = Inr r"
    and c: "c = py_lower (unicode_lower env) (py_strip r)"
    by (auto simp: classify_query_run split: sum.splits)
  have dq: "ascii ''data_query'' \<noteq> ascii ''general''" "ascii ''data_query'' \<noteq> ascii ''explanation''"
    by (simp_all add: ascii_def)
  show ?thesis
    using h r c dq
    by (simp add: process_query_unfold [of env] process_query_unfold [of "as_data_query env q"]
        data_query_label Let_def cong: sum.case_cong)
qed

text \<open>
  C7. The classification step returns the response of the language model trimmed and
  lower-cased: for a response made of whitespace, a core that neither begins nor ends
  with whitespace, and whitespace again (all within Latin-1), it returns the core with
  A..Z and the Latin-1 capitals moved to lower case; in general it returns
  \<open>str.lower\<close> of \<open>str.strip\<close> of the response. A label that is neither
  \<open>general\<close> nor \<open>explanation\<close>, recognised or not, takes the data-query path:
  the context is retrieved, the SQL is generated from schema, context and question,
  cleaned and executed, and when these stages succeed the result carries the summary,
  the table and the query, with no error. If the result does carry an error, it is the
  exception of the retrieval, of the SQL generation, of the execution or of the summary,
  never the label. The whole run equals the run of the same question with the
  classification answer replaced by \<open>data_query\<close>.
\<close>

theorem unknown_label_is_data_query:
  "(llm env (ClassificationPrompt q) = Inr (w1 @ core @ w2) \<and>
    (\<forall>x\<in>set w1. py_isspace x) \<and> (\<forall>x\<in>set w2. py_isspace x) \<and>
    (core = [] \<or> (\<not> py_isspace (hd core) \<and> \<not> py_isspace (last core))) \<and>
    list_all (\<lambda>x. x < 256) (w1 @ core @ w2) \<longrightarrow>
      fst (classify_query env q w) =
      Inr (map (\<lambda>x. if (65 \<le> x \<and> x \<le> 90) \<or> (192 \<le> x \<and> x \<le> 222 \<and> x \<noteq> 215)
                     then x + 32 else x) core)) \<and>
   (llm env (ClassificationPrompt q) = Inr r \<longrightarrow>
      fst (classify_query env q w) = Inr (py_lower (unicode_lower env) (py_strip r))) \<and>
   (fst (classify_query env q w) = Inr c \<and> c \<noteq> ascii ''general'' \<and> c \<noteq> ascii ''explanation'' \<and>
    fst (get_relevant_context env q w) = Inr ctx \<and>
    format_schema_info (schema_info w) = Inr sch \<and>
    llm env (SqlPrompt sch ctx q) = Inr raw \<and>
    cursor_execute env (clean_sql raw) = Inr df \<and>
    generate_natural_response (Some df) = Inr a \<longrightarrow>
      process_query env q w =
      (\<lparr>answer = a @ sql_details (clean_sql raw), dataframe = Some df,
         sql_query = Some (clean_sql raw), error = None\<rparr>,
       w\<lparr>trace := trace w @ [LlmCall (ClassificationPrompt q), RetrievalCall q,
                               LlmCall (SqlPrompt sch ctx q), WarehouseCall (clean_sql raw)]\<rparr>)) \<and>
   (fst (classify_query env q w) = Inr c \<and> c \<noteq> ascii ''general'' \<and> c \<noteq> ascii ''explanation'' \<and>
    error (fst (process_query env q w)) = Some e \<longrightarrow>
      fst (get_relevant_context env q w) = Inl e \<or>
      (\<exists>ctx. fst (get_relevant_context env q w) = Inr ctx \<and>
         (fst (generate_sql env q ctx w) = Inl e \<or>
          (\<exists>sql. fst (generate_sql env q ctx w) = Inr sql \<and>
             (fst (execute_query env sql w) = Inl e \<or>
              (\<exists>df. fst (execute_query env sql w) = Inr df \<and>
                 generate_natural_response (Some df) = Inl e)))))) \<and>
   (fst (classify_query env q w) = Inr c \<and> c \<noteq> ascii ''general'' \<and> c \<noteq> ascii ''explanation'' \<longrightarrow>
      process_query env q w = process_query (as_data_query env q) q w)"
proof (intro conjI impI)
  assume "llm env (ClassificationPrompt q) = Inr (w1 @ core @ w2) \<and>
    (\<forall>x\<in>set w1. py_isspace x) \<and> (\<forall>x\<in>set w2. py_isspace x) \<and>
    (core = [] \<or> (\<not> py_isspace (hd core) \<and> \<not> py_isspace (last core))) \<and>
    list_all (\<lambda>x. x < 256) (w1 @ core @ w2)"
  then show "fst (classify_query env q w) =
      Inr (map (\<lambda>x. if (65 \<le> x \<and> x \<le> 90) \<or> (192 \<le> x \<and> x \<le> 222 \<and> x \<noteq> 215)
                     then x + 32 else x) core)"
    by (intro classify_trims_and_lowers) blast+
next
  assume "llm env (ClassificationPrompt q) = Inr r"
  then show "fst (classify_query env q w) = Inr (py_lower (unicode_lower env) (py_strip r))"
    by (simp add: classify_query_run)
next
  assume "fst (classify_query env q w) = Inr c \<and> c \<noteq> ascii ''general'' \<and> c \<noteq> ascii ''explanation'' \<and>
    fst (get_relevant_context env q w) = Inr ctx \<and>
    format_schema_info (schema_info w) = Inr sch \<and>
    llm env (SqlPrompt sch ctx q) = Inr raw \<and>
    cursor_execute env (clean_sql raw) = Inr df \<and>
    generate_natural_response (Some df) = Inr a"
  then show "process_query env q w =
      (\<lparr>answer = a @ sql_details (clean_sql raw), dataframe = Some df,
         sql_query = Some (clean_sql raw), error = None\<rparr>,
       w\<lparr>trace := trace w @ [LlmCall (ClassificationPrompt q), RetrievalCall q,
                               LlmCall (SqlPrompt sch ctx q), WarehouseCall (clean_sql raw)]\<rparr>)"
    by (intro unknown_label_success) blast+
next
  assume "fst (classify_query env q w) = Inr c \<and> c \<noteq> ascii ''general'' \<and> c \<noteq> ascii ''explanation'' \<and>
    error (fst (process_query env q w)) = Some e"
  then show "fst (get_relevant_context env q w) = Inl e \<or>
      (\<exists>ctx. fst (get_relevant_context env q w) = Inr ctx \<and>
         (fst (generate_sql env q ctx w) = Inl e \<or>
          (\<exists>sql. fst (generate_sql env q ctx w) = Inr sql \<and>
             (fst (execute_query env sql w) = Inl e \<or>
              (\<exists>df. fst (execute_query env sql w) = Inr df \<and>
                 generate_natural_response (Some df) = Inl e)))))"
    by (intro unknown_label_error_origin [of env q w c]) blast+
next
  assume "fst (classify_query env q w) = Inr c \<and> c \<noteq> ascii ''general'' \<and> c \<noteq> ascii ''explanation''"
  then show "process_query env q w = process_query (as_data_query env q) q w"
    by (rule unknown_label_same_run)
qed

text \<open>
  C9. Whatever \<open>process_query\<close> returns, a result or an error result, it leaves
  \<open>schema_info\<close> and the document store as they were, and only adds to the record of
  calls; the result of a later invocation is the one it would have given first.
\<close>

theorem process_query_frame:
  "schema_info (snd (process_query env q w)) = schema_info w \<and>
   vector_store (snd (process_query env q w)) = vector_store w \<and>
   (\<exists>calls. trace (snd (process_query env q w)) = trace w @ calls) \<and>
   fst (process_query env q2 (snd (process_query env q w))) = fst (process_query env q2 w)"
proof -
  have a: "schema_info (snd (process_query env q w)) = schema_info w" for q and w :: "'a world"
    by (simp add: process_query_unfold Let_def split: sum.splits)
  have b: "vector_store (snd (process_query env q w)) = vector_store w" for q and w :: "'a world"
    by (simp add: process_query_unfold Let_def split: sum.splits)
  have c: "\<exists>calls. trace (snd (process_query env q w)) = trace w @ calls"
    by (simp add: process_query_unfold Let_def split: sum.splits)
  have d: "fst (process_query env q2 w') = fst (process_query env q2 w)"
    if "schema_info w' = schema_info w" "vector_store w' = vector_store w" for w w' :: "'a world"
    using that by (simp add: process_query_unfold Let_def split: sum.splits)
  show ?thesis
    using a b c d [OF a b] by blast
qed


text \<open>
  C6. An exception raised anywhere in the body of \<open>process_query\<close> is turned into the
  error result: by the classification, by the retrieval, by the generation of the
  explanation or of the SQL, by the execution in the warehouse, or by the summary. The
  error result carries the text of the exception in \<open>error\<close> and inside the readable
  message of \<open>answer\<close>, and has no table. \<open>process_query\<close> itself is total: it
  returns a result in every case. The stages are stated on the state \<open>w\<close>, which no
  stage changes apart from the record of calls.
\<close>

theorem process_query_catches:
  "(fst (process_query_body env q w) = Inl e \<longrightarrow> fst (process_query env q w) = error_result e) \<and>
   (fst (classify_query env q w) = Inl e \<longrightarrow> fst (process_query env q w) = error_result e) \<and>
   (fst (classify_query env q w) = Inr c \<and> c \<noteq> ascii ''general'' \<and>
    fst (get_relevant_context env q w) = Inl e \<longrightarrow>
      fst (process_query env q w) = error_result e) \<and>
   (fst (classify_query env q w) = Inr (ascii ''explanation'') \<and>
    fst (get_relevant_context env q w) = Inr ctx \<and>
    llm env (ExplanationPrompt ctx q) = Inl e \<longrightarrow>
      fst (process_query env q w) = error_result e) \<and>
   (fst (classify_query env q w) = Inr c \<and> c \<noteq> ascii ''general'' \<and> c \<noteq> ascii ''explanation'' \<and>
    fst (get_relevant_context env q w) = Inr ctx \<and>
    fst (generate_sql env q ctx w) = Inl e \<longrightarrow>
      fst (process_query env q w) = error_result e) \<and>
   (fst (classify_query env q w) = Inr c \<and> c \<noteq> ascii ''general'' \<and> c \<noteq> ascii ''explanation'' \<and>
    fst (get_relevant_context env q w) = Inr ctx \<and>
    fst (generate_sql env q ctx w) = Inr sql \<and>
    fst (execute_query env sql w) = Inl e \<longrightarrow>
      fst (process_query env q w) = error_result e) \<and>
   (fst (classify_query env q w) = Inr c \<and> c \<noteq> ascii ''general'' \<and> c \<noteq> ascii ''explanation'' \<and>
    fst (get_relevant_context env q w) = Inr ctx \<and>
    fst (generate_sql env q ctx w) = Inr sql \<and>
    fst (execute_query env sql w) = Inr df \<and>
    generate_natural_response (Some df) = Inl e \<longrightarrow>
      fst (process_query env q w) = error_result e) \<and>
   error (error_result e) = Some e \<and> dataframe (error_result e) = None \<and>
   answer (error_result e) =
     ascii ''I encountered an error processing your query: '' @ e @ [10, 10] @
     ascii ''Please try rephrasing your question or check the Snowflake connection.''"
proof (intro conjI impI)
  assume "fst (process_query_body env q w) = Inl e"
  then show "fst (process_query env q w) = error_result e"
    by (cases "process_query_body env q w") (simp add: process_query_def)
next
  assume "fst (classify_query env q w) = Inl e"
  then show "fst (process_query env q w) = error_result e"
    by (simp add: stage_simps process_query_unfold Let_def)
next
  assume "fst (classify_query env q w) = Inr c \<and> c \<noteq> ascii ''general'' \<and>
    fst (get_relevant_context env q w) = Inl e"
  then show "fst (process_query env q w) = error_result e"
    by (auto simp: stage_simps process_query_unfold Let_def)
next
  assume "fst (classify_query env q w) = Inr (ascii ''explanation'') \<and>
    fst (get_relevant_context env q w) = Inr ctx \<and>
    llm env (ExplanationPrompt ctx q) = Inl e"
  moreover have "ascii ''explanation'' \<noteq> ascii ''general''"
    by (simp add: ascii_def)
  ultimately show "fst (process_query env q w) = error_result e"
    by (auto simp: stage_simps process_query_unfold Let_def)
next
  assume "fst (classify_query env q w) = Inr c \<and> c \<noteq> ascii ''general'' \<and> c \<noteq> ascii ''explanation'' \<and>
    fst (get_relevant_context env q w) = Inr ctx \<and>
    fst (generate_sql env q ctx w) = Inl e"
  then show "fst (process_query env q w) = error_result e"
    by (auto simp: stage_simps process_query_unfold Let_def)
next
  assume "fst (classify_query env q w) = Inr c \<and> c \<noteq> ascii ''general'' \<and> c \<noteq> ascii ''explanation'' \<and>
    fst (get_relevant_context env q w) = Inr ctx \<and>
    fst (generate_sql env q ctx w) = Inr sql \<and>
    fst (execute_query env sql w) = Inl e"
  then show "fst (process_query env q w) = error_result e"
    by (auto simp: stage_simps process_query_unfold Let_def)
next
  assume "fst (classify_query env q w) = Inr c \<and> c \<noteq> ascii ''general'' \<and> c \<noteq> ascii ''explanation'' \<and>
    fst (get_relevant_context env q w) = Inr ctx \<and>
    fst (generate_sql env q ctx w) = Inr sql \<and>
    fst (execute_query env sql w) = Inr df \<and>
    generate_natural_response (Some df) = Inl e"
  then show "fst (process_query env q w) = error_result e"
    by (auto simp: stage_simps process_query_unfold Let_def)
qed (simp_all add: error_result_def)

section \<open>Query router: the theorems at concrete inputs\<close>

lemma demo_answers_simps [simp]:
  "demo_answers l other (ClassificationPrompt q) = Inr l"
  "demo_answers l other (ExplanationPrompt c q) = other"
  "demo_answers l other (SqlPrompt s c q) = other"
  by (simp_all add: demo_answers_def)

lemma labels_eval:
  "py_lower (\<lambda>s. s) (py_strip (ascii ''explanation'')) = ascii ''explanation''"
  "py_lower (\<lambda>s. s) (py_strip (ascii ''data_query'')) = ascii ''data_query''"
  "py_lower (\<lambda>s. s) (py_strip (ascii ''Maybe'')) = ascii ''maybe''"
  by (simp_all add: py_lower_def py_strip_def py_isspace_def lower_latin1_def ascii_def)

lemma labels_distinct:
  "ascii ''data_query'' \<noteq> ascii ''general''" "ascii ''data_query'' \<noteq> ascii ''explanation''"
  "ascii ''maybe'' \<noteq> ascii ''general''" "ascii ''maybe'' \<noteq> ascii ''explanation''"
  "ascii ''explanation'' \<noteq> ascii ''general''"
  by (simp_all add: ascii_def)

lemma clean_select: "clean_sql (ascii ''SELECT 1'') = ascii ''SELECT 1''"
  by (simp add: clean_sql_def ascii_def py_strip_def py_isspace_def startswith_def
      endswith_def fence_def fence_sql_def Let_def)

lemma demo_context [simp]:
  "fst (get_relevant_context (demo_env a (\<lambda>s. Inr 0) c) q demo_world) = Inr no_context"
  by (simp add: get_relevant_context_run retrieved_def format_context_def)

lemma demo_generate_sql [simp]:
  "fst (generate_sql (demo_env (demo_answers l other) em c) q ctx demo_world) =
     (case other of Inl e \<Rightarrow> Inl e | Inr raw \<Rightarrow> Inr (clean_sql raw))"
  by (simp add: generate_sql_run)

theorem process_query_catches_witness:
  "fst (process_query (demo_env (\<lambda>p. Inl (ascii ''timeout'')) (\<lambda>s. Inr 0) (\<lambda>s. Inr []))
     (ascii ''q'') demo_world) = error_result (ascii ''timeout'') \<and>
   fst (process_query (demo_env (demo_answers (ascii ''data_query'') (Inr (ascii ''SELECT 1'')))
        (\<lambda>s. Inl (ascii ''no model'')) (\<lambda>s. Inr []))
     (ascii ''q'') (demo_world\<lparr>vector_store := Some [(demo_doc, 0)]\<rparr>)) = error_result (ascii ''no model'') \<and>
   fst (process_query (demo_env (demo_answers (ascii ''explanation'') (Inl (ascii ''timeout'')))
        (\<lambda>s. Inr 0) (\<lambda>s. Inr []))
     (ascii ''q'') demo_world) = error_result (ascii ''timeout'') \<and>
   fst (process_query (demo_env (demo_answers (ascii ''data_query'') (Inl (ascii ''timeout'')))
        (\<lambda>s. Inr 0) (\<lambda>s. Inr []))
     (ascii ''q'') demo_world) = error_result (ascii ''timeout'') \<and>
   fst (process_query (demo_env (demo_answers (ascii ''data_query'') (Inr (ascii ''SELECT 1'')))
        (\<lambda>s. Inr 0) (\<lambda>s. Inl (ascii ''connection lost'')))
     (ascii ''q'') demo_world) = error_result (ascii ''Query execution failed: connection lost'') \<and>
   fst (process_query (demo_env (demo_answers (ascii ''data_query'') (Inr (ascii ''SELECT 1'')))
        (\<lambda>s. Inr 0) (\<lambda>s. Inr [(ascii ''A'', IntCol [1]), (ascii ''B'', ObjCol [ascii ''x''])]))
     (ascii ''q'') demo_world) = error_result format_error"
proof -
  let ?q = "ascii ''q''"
  let ?e1 = "demo_env (\<lambda>p. Inl (ascii ''timeout'')) (\<lambda>s. Inr 0) (\<lambda>s. Inr [])"
  let ?e2 = "demo_env (demo_answers (ascii ''data_query'') (Inr (ascii ''SELECT 1'')))
        (\<lambda>s. Inl (ascii ''no model'')) (\<lambda>s. Inr [])"
  let ?e3 = "demo_env (demo_answers (ascii ''explanation'') (Inl (ascii ''timeout'')))
        (\<lambda>s. Inr 0) (\<lambda>s. Inr [])"
  let ?e4 = "demo_env (demo_answers (ascii ''data_query'') (Inl (ascii ''timeout'')))
        (\<lambda>s. Inr 0) (\<lambda>s. Inr [])"
  let ?e5 = "demo_env (demo_answers (ascii ''data_query'') (Inr (ascii ''SELECT 1'')))
        (\<lambda>s. Inr 0) (\<lambda>s. Inl (ascii ''connection lost''))"
  let ?df = "[(ascii ''A'', IntCol [1]), (ascii ''B'', ObjCol [ascii ''x''])]"
  let ?e6 = "demo_env (demo_answers (ascii ''data_query'') (Inr (ascii ''SELECT 1'')))
        (\<lambda>s. Inr 0) (\<lambda>s. Inr ?df)"
  have h1: "fst (classify_query ?e1 ?q demo_world) = Inl (ascii ''timeout'')"
    by (simp add: classify_query_run)
  have h2: "fst (classify_query ?e2 ?q (demo_world\<lparr>vector_store := Some [(demo_doc, 0)]\<rparr>)) = Inr (ascii ''data_query'') \<and>
      ascii ''data_query'' \<noteq> ascii ''general'' \<and>
      fst (get_relevant_context ?e2 ?q (demo_world\<lparr>vector_store := Some [(demo_doc, 0)]\<rparr>)) = Inl (ascii ''no model'')"
    by (simp add: classify_query_run labels_eval labels_distinct get_relevant_context_run
        retrieved_def similarity_search_def)
  have h3: "fst (classify_query ?e3 ?q demo_world) = Inr (ascii ''explanation'') \<and>
      fst (get_relevant_context ?e3 ?q demo_world) = Inr no_context \<and>
      llm ?e3 (ExplanationPrompt no_context ?q) = Inl (ascii ''timeout'')"
    by (simp add: classify_query_run labels_eval)
  have h4: "fst (classify_query ?e4 ?q demo_world) = Inr (ascii ''data_query'') \<and>
      ascii ''data_query'' \<noteq> ascii ''general'' \<and> ascii ''data_query'' \<noteq> ascii ''explanation'' \<and>
      fst (get_relevant_context ?e4 ?q demo_world) = Inr no_context \<and>
      fst (generate_sql ?e4 ?q no_context demo_world) = Inl (ascii ''timeout'')"
    by (simp add: classify_query_run labels_eval labels_distinct)
  have h5: "fst (classify_query ?e5 ?q demo_world) = Inr (ascii ''data_query'') \<and>
      ascii ''data_query'' \<noteq> ascii ''general'' \<and> ascii ''data_query'' \<noteq> ascii ''explanation'' \<and>
      fst (get_relevant_context ?e5 ?q demo_world) = Inr no_context \<and>
      fst (generate_sql ?e5 ?q no_context demo_world) = Inr (ascii ''SELECT 1'') \<and>
      fst (execute_query ?e5 (ascii ''SELECT 1'') demo_world) =
        Inl (ascii ''Query execution failed: connection lost'')"
    by (simp add: classify_query_run labels_eval labels_distinct clean_select execute_query_run)
       (simp add: ascii_def)
  have h6: "fst (classify_query ?e6 ?q demo_world) = Inr (ascii ''data_query'') \<and>
      ascii ''data_query'' \<noteq> ascii ''general'' \<and> ascii ''data_query'' \<noteq> ascii ''explanation'' \<and>
      fst (get_relevant_context ?e6 ?q demo_world) = Inr no_context \<and>
      fst (generate_sql ?e6 ?q no_context demo_world) = Inr (ascii ''SELECT 1'') \<and>
      fst (execute_query ?e6 (ascii ''SELECT 1'') demo_world) = Inr ?df \<and>
      generate_natural_response (Some ?df) = Inl format_error"
    by (simp add: classify_query_run labels_eval labels_distinct clean_select execute_query_run
        generate_natural_response_def df_empty_def df_len_def numeric_cols_def row_line_def
        str_int_def digits.simps Let_def)
       (simp add: ascii_def)
  from process_query_catches [where env = ?e1 and q = ?q and w = demo_world and e = "ascii ''timeout''"] h1
  have "fst (process_query ?e1 ?q demo_world) = error_result (ascii ''timeout'')"
    by blast
  moreover
  from process_query_catches [where env = ?e2 and q = ?q and w = "demo_world\<lparr>vector_store := Some [(demo_doc, 0)]\<rparr>"
      and e = "ascii ''no model''" and c = "ascii ''data_query''"] h2
  have "fst (process_query ?e2 ?q (demo_world\<lparr>vector_store := Some [(demo_doc, 0)]\<rparr>)) = error_result (ascii ''no model'')"
    by blast
  moreover
  from process_query_catches [where env = ?e3 and q = ?q and w = demo_world
      and e = "ascii ''timeout''" and ctx = no_context] h3
  have "fst (process_query ?e3 ?q demo_world) = error_result (ascii ''timeout'')"
    by blast
  moreover
  from process_query_catches [where env = ?e4 and q = ?q and w = demo_world
      and e = "ascii ''timeout''" and c = "ascii ''data_query''" and ctx = no_context] h4
  have "fst (process_query ?e4 ?q demo_world) = error_result (ascii ''timeout'')"
    by blast
  moreover
  from process_query_catches [where env = ?e5 and q = ?q and w = demo_world
      and e = "ascii ''Query execution failed: connection lost''" and c = "ascii ''data_query''"
      and ctx = no_context and sql = "ascii ''SELECT 1''"] h5
  have "fst (process_query ?e5 ?q demo_world) = error_result (ascii ''Query execution failed: connection lost'')"
    by blast
  moreover
  from process_query_catches [where env = ?e6 and q = ?q and w = demo_world
      and e = format_error and c = "ascii ''data_query''"
      and ctx = no_context and sql = "ascii ''SELECT 1''" and df = ?df] h6
  have "fst (process_query ?e6 ?q demo_world) = error_result format_error"
    by blast
  ultimately show ?thesis
    by blast
qed

lemma clean_fenced_select:
  "clean_sql (ascii ''```sql'' @ [10] @ ascii ''SELECT 1'' @ [10] @ ascii ''```'') = ascii ''SELECT 1''"
  by (simp add: clean_sql_def ascii_def py_strip_def py_isspace_def startswith_def
      endswith_def fence_def fence_sql_def Let_def)

lemma demo_summary:
  "generate_natural_response
     (Some [(ascii ''PRODUCT'', ObjCol [ascii ''A'']), (ascii ''REVENUE'', IntCol [10])]) =
   Inr (ascii ''Found 1 results. The total REVENUE is 10.00. Here are all the results:'' @
        [10, 10] @ bullet @ ascii '' A: 10.00'' @ [10])"
  by (simp add: generate_natural_response_def df_empty_def df_len_def numeric_cols_def
      row_line_def digits_small format_2f_values Let_def)
     (simp add: ascii_def)

theorem unknown_label_is_data_query_witness:
  "fst (classify_query
     (demo_env (demo_answers ([32] @ ascii ''MAYBE'' @ [10])
                  (Inr (ascii ''```sql'' @ [10] @ ascii ''SELECT 1'' @ [10] @ ascii ''```'')))
        (\<lambda>s. Inr 0)
        (\<lambda>s. Inr [(ascii ''PRODUCT'', ObjCol [ascii ''A'']), (ascii ''REVENUE'', IntCol [10])]))
     (ascii ''q'') demo_world) = Inr (ascii ''maybe'') \<and>
   process_query
     (demo_env (demo_answers ([32] @ ascii ''MAYBE'' @ [10])
                  (Inr (ascii ''```sql'' @ [10] @ ascii ''SELECT 1'' @ [10] @ ascii ''```'')))
        (\<lambda>s. Inr 0)
        (\<lambda>s. Inr [(ascii ''PRODUCT'', ObjCol [ascii ''A'']), (ascii ''REVENUE'', IntCol [10])]))
     (ascii ''q'') demo_world =
   (\<lparr>answer = ascii ''Found 1 results. The total REVENUE is 10.00. Here are all the results:'' @
                [10, 10] @ bullet @ ascii '' A: 10.00'' @ [10] @ sql_details (ascii ''SELECT 1''),
      dataframe = Some [(ascii ''PRODUCT'', ObjCol [ascii ''A'']), (ascii ''REVENUE'', IntCol [10])],
      sql_query = Some (ascii ''SELECT 1''), error = None\<rparr>,
    demo_world\<lparr>trace := [LlmCall (ClassificationPrompt (ascii ''q'')), RetrievalCall (ascii ''q''),
                           LlmCall (SqlPrompt [] no_context (ascii ''q'')),
                           WarehouseCall (ascii ''SELECT 1'')]\<rparr>) \<and>
   process_query
     (demo_env (demo_answers ([32] @ ascii ''MAYBE'' @ [10])
                  (Inr (ascii ''```sql'' @ [10] @ ascii ''SELECT 1'' @ [10] @ ascii ''```'')))
        (\<lambda>s. Inr 0)
        (\<lambda>s. Inr [(ascii ''PRODUCT'', ObjCol [ascii ''A'']), (ascii ''REVENUE'', IntCol [10])]))
     (ascii ''q'') demo_world =
   process_query
     (as_data_query
        (demo_env (demo_answers ([32] @ ascii ''MAYBE'' @ [10])
                  (Inr (ascii ''```sql'' @ [10] @ ascii ''SELECT 1'' @ [10] @ ascii ''```'')))
           (\<lambda>s. Inr 0)
           (\<lambda>s. Inr [(ascii ''PRODUCT'', ObjCol [ascii ''A'']), (ascii ''REVENUE'', IntCol [10])]))
        (ascii ''q''))
     (ascii ''q'') demo_world"
proof -
  let ?raw = "ascii ''```sql'' @ [10] @ ascii ''SELECT 1'' @ [10] @ ascii ''```''"
  let ?df = "[(ascii ''PRODUCT'', ObjCol [ascii ''A'']), (ascii ''REVENUE'', IntCol [10])]"
  let ?env = "demo_env (demo_answers ([32] @ ascii ''MAYBE'' @ [10]) (Inr ?raw)) (\<lambda>s. Inr 0) (\<lambda>s. Inr ?df)"
  let ?q = "ascii ''q''"
  let ?a = "ascii ''Found 1 results. The total REVENUE is 10.00. Here are all the results:'' @
                [10, 10] @ bullet @ ascii '' A: 10.00'' @ [10]"
  note t = unknown_label_is_data_query [where env = ?env and q = ?q and w = demo_world
      and ?w1.0 = "[32]" and core = "ascii ''MAYBE''" and ?w2.0 = "[10]"
      and c = "ascii ''maybe''" and ctx = no_context and sch = "[]" and raw = ?raw
      and df = ?df and a = ?a]
  have h1: "llm ?env (ClassificationPrompt ?q) = Inr ([32] @ ascii ''MAYBE'' @ [10]) \<and>
      (\<forall>x\<in>set [32]. py_isspace x) \<and> (\<forall>x\<in>set [10]. py_isspace x) \<and>
      (ascii ''MAYBE'' = [] \<or>
       (\<not> py_isspace (hd (ascii ''MAYBE'')) \<and> \<not> py_isspace (last (ascii ''MAYBE'')))) \<and>
      list_all (\<lambda>x. x < 256) ([32] @ ascii ''MAYBE'' @ [10])"
    by (simp add: py_isspace_def ascii_def)
  have low: "map (\<lambda>x. if (65 \<le> x \<and> x \<le> 90) \<or> (192 \<le> x \<and> x \<le> 222 \<and> x \<noteq> 215)
                     then x + 32 else x) (ascii ''MAYBE'') = ascii ''maybe''"
    by (simp add: ascii_def)
  from t h1 have c: "fst (classify_query ?env ?q demo_world) = Inr (ascii ''maybe'')"
    unfolding low by blast
  have h2: "fst (classify_query ?env ?q demo_world) = Inr (ascii ''maybe'') \<and>
      ascii ''maybe'' \<noteq> ascii ''general'' \<and> ascii ''maybe'' \<noteq> ascii ''explanation'' \<and>
      fst (get_relevant_context ?env ?q demo_world) = Inr no_context \<and>
      format_schema_info (schema_info demo_world) = Inr [] \<and>
      llm ?env (SqlPrompt [] no_context ?q) = Inr ?raw \<and>
      cursor_execute ?env (clean_sql ?raw) = Inr ?df \<and>
      generate_natural_response (Some ?df) = Inr ?a"
    using c by (simp add: labels_distinct demo_summary)
  from t h2 have run: "process_query ?env ?q demo_world =
      (\<lparr>answer = ?a @ sql_details (clean_sql ?raw), dataframe = Some ?df,
         sql_query = Some (clean_sql ?raw), error = None\<rparr>,
       demo_world\<lparr>trace := trace demo_world @ [LlmCall (ClassificationPrompt ?q), RetrievalCall ?q,
                               LlmCall (SqlPrompt [] no_context ?q), WarehouseCall (clean_sql ?raw)]\<rparr>)"
    by blast
  from t c labels_distinct have same: "process_query ?env ?q demo_world =
      process_query (as_data_query ?env ?q) ?q demo_world"
    by blast
  from c run same show ?thesis
    unfolding clean_fenced_select by simp
qed

theorem process_query_frame_witness:
  "schema_info (snd (process_query (demo_env (demo_answers (ascii ''data_query'') (Inr (ascii ''SELECT 1'')))
        (\<lambda>s. Inr 0) (\<lambda>s. Inl (ascii ''connection lost''))) (ascii ''q'') demo_world)) = [] \<and>
   vector_store (snd (process_query (demo_env (demo_answers (ascii ''data_query'') (Inr (ascii ''SELECT 1'')))
        (\<lambda>s. Inr 0) (\<lambda>s. Inl (ascii ''connection lost''))) (ascii ''q'') demo_world)) = None"
  using process_query_frame [where env = "demo_env (demo_answers (ascii ''data_query'') (Inr (ascii ''SELECT 1'')))
        (\<lambda>s. Inr 0) (\<lambda>s. Inl (ascii ''connection lost''))" and q = "ascii ''q''" and w = demo_world]
  by simp

section \<open>Document store and retrieval engine: proofs\<close>

lemma set_insert_ranked [simp]: "set (insert_ranked sc i js) = insert i (set js)"
  by (induction js) auto

lemma length_insert_ranked [simp]: "length (insert_ranked sc i js) = Suc (length js)"
  by (induction js) auto

lemma sorted_insert_ranked:
  assumes "sorted_wrt (ranked_before sc) js" and "\<forall>j\<in>set js. j < i"
  shows "sorted_wrt (ranked_before sc) (insert_ranked sc i js)"
  using assms
proof (induction js)
  case Nil
  then show ?case by simp
next
  case (Cons j js)
  show ?case
  proof (cases "sc j < sc i")
    case True
    have "ranked_before sc i x" if "x \<in> set (j # js)" for x
    proof (cases "x = j")
      case True
      with \<open>sc j < sc i\<close> show ?thesis by (simp add: ranked_before_def)
    next
      case False
      with that have "x \<in> set js" by simp
      with Cons.prems(1) have "ranked_before sc j x" by simp
      with \<open>sc j < sc i\<close> show ?thesis by (auto simp: ranked_before_def)
    qed
    with True Cons.prems(1) show ?thesis by simp
  next
    case False
    have "ranked_before sc j i"
      using False Cons.prems(2) by (auto simp: ranked_before_def)
    moreover have "sorted_wrt (ranked_before sc) (insert_ranked sc i js)"
      using Cons by simp
    ultimately show ?thesis
      using False Cons.prems(1) by simp
  qed
qed

lemma rank_all_0 [simp]: "rank_all sc 0 = []"
  by (simp add: rank_all_def rank_from_def)

lemma rank_all_Suc: "rank_all sc (Suc n) = insert_ranked sc n (rank_all sc n)"
  by (simp add: rank_all_def rank_from_def)

lemma set_rank_all [simp]: "set (rank_all sc n) = {0..<n}"
  by (induction n) (auto simp: rank_all_Suc)

lemma length_rank_all [simp]: "length (rank_all sc n) = n"
  by (induction n) (simp_all add: rank_all_Suc)

lemma sorted_rank_all: "sorted_wrt (ranked_before sc) (rank_all sc n)"
  by (induction n) (simp_all add: rank_all_Suc sorted_insert_ranked)

lemma distinct_rank_all: "distinct (rank_all sc n)"
  by (rule card_distinct) simp

lemma insert_ranked_cong:
  "sc i = sc' i \<Longrightarrow> \<forall>j\<in>set js. sc j = sc' j \<Longrightarrow> insert_ranked sc i js = insert_ranked sc' i js"
  by (induction js) auto

lemma rank_all_cong:
  "\<forall>i<n. sc i = sc' i \<Longrightarrow> rank_all sc n = rank_all sc' n"
proof (induction n)
  case 0
  then show ?case by simp
next
  case (Suc n)
  then have "rank_all sc n = rank_all sc' n" by simp
  moreover have "insert_ranked sc n (rank_all sc' n) = insert_ranked sc' n (rank_all sc' n)"
    using Suc.prems by (intro insert_ranked_cong) auto
  ultimately show ?case by (simp add: rank_all_Suc)
qed

lemma insert_ranked_prefix:
  "\<forall>y\<in>set pre. \<not> sc y < sc j \<Longrightarrow>
   insert_ranked sc j (pre @ rest) = pre @ insert_ranked sc j rest"
  by (induction pre) auto

lemma rank_from_prefix:
  "\<forall>j\<in>set js. \<forall>y\<in>set pre. \<not> sc y < sc j \<Longrightarrow>
   rank_from sc (pre @ rest) js = pre @ rank_from sc rest js"
proof (induction js arbitrary: rest)
  case Nil
  then show ?case by (simp add: rank_from_def)
next
  case (Cons j js)
  have "rank_from sc (pre @ rest) (j # js) = rank_from sc (insert_ranked sc j (pre @ rest)) js"
    by (simp add: rank_from_def)
  also have "\<dots> = rank_from sc (pre @ insert_ranked sc j rest) js"
    using Cons.prems by (simp add: insert_ranked_prefix)
  also have "\<dots> = pre @ rank_from sc (insert_ranked sc j rest) js"
    using Cons.prems by (intro Cons.IH) simp
  finally show ?case by (simp add: rank_from_def)
qed

lemma rank_all_extend:
  "n \<le> n' \<Longrightarrow> rank_all sc n' = rank_from sc (rank_all sc n) [n..<n']"
proof -
  assume "n \<le> n'"
  then have "[0..<n'] = [0..<n] @ [n..<n']"
    by (metis le_add_diff_inverse upt_add_eq_append zero_le)
  then show ?thesis
    by (simp add: rank_all_def rank_from_def)
qed


lemma rank_duplicate_batch:
  fixes sc1 sc2 :: "nat \<Rightarrow> 's::linorder"
  assumes le: "n0 \<le> n1"
    and agree: "\<forall>i<n1. sc2 i = sc1 i"
    and dup: "\<forall>j. n1 \<le> j \<and> j < n1 + (n1 - n0) \<longrightarrow> sc2 j = sc1 (j - (n1 - n0))"
    and hit: "\<exists>i\<in>set (take k (rank_all sc1 n1)). n0 \<le> i"
  shows "\<exists>i\<in>set (take k (rank_all sc2 (n1 + (n1 - n0)))). n0 \<le> i \<and> i < n1"
proof -
  define xs where "xs = rank_all sc1 n1"
  from hit obtain i where i: "i \<in> set (take k xs)" "n0 \<le> i"
    by (auto simp: xs_def)
  then have "\<exists>x\<in>set xs. n0 \<le> x"
    by (auto dest: in_set_takeD)
  then obtain ys b zs where split: "xs = ys @ b # zs" and b: "n0 \<le> b"
    and ys: "\<forall>y\<in>set ys. \<not> n0 \<le> y"
    using split_list_first_prop [of xs "\<lambda>x. n0 \<le> x"] by blast
  have inxs: "\<And>x. x \<in> set xs \<longleftrightarrow> x < n1"
    by (auto simp: xs_def)
  have b1: "b < n1"
    using inxs [of b] split by simp
  have sorted: "sorted_wrt (ranked_before sc1) (ys @ b # zs)"
    using sorted_rank_all [of sc1 n1] by (simp add: xs_def [symmetric] split)
  have before: "\<forall>y\<in>set ys. ranked_before sc1 y b"
    and after: "\<forall>z\<in>set zs. ranked_before sc1 b z"
    using sorted by (auto simp: sorted_wrt_append)
  have klen: "length ys < k"
  proof (rule ccontr)
    assume "\<not> length ys < k"
    then have "take k xs = take k ys"
      by (simp add: split)
    with i(1) have "i \<in> set ys"
      by (auto dest: in_set_takeD)
    with ys i(2) show False by auto
  qed
  have top: "\<not> sc1 y < sc1 d" if y: "y \<in> set (ys @ [b])" and d: "n0 \<le> d" "d < n1" for y d
  proof -
    have "d \<in> set xs" using inxs d by simp
    moreover have "d \<notin> set ys" using ys d by auto
    ultimately have "d = b \<or> d \<in> set zs" by (auto simp: split)
    then have "sc1 d \<le> sc1 b"
      using after by (auto simp: ranked_before_def)
    moreover have "sc1 b \<le> sc1 y"
      using before y by (auto simp: ranked_before_def)
    ultimately show ?thesis by simp
  qed
  have cond: "\<forall>j\<in>set [n1..<n1 + (n1 - n0)]. \<forall>y\<in>set (ys @ [b]). \<not> sc2 y < sc2 j"
  proof (intro ballI)
    fix j y
    assume j: "j \<in> set [n1..<n1 + (n1 - n0)]" and y: "y \<in> set (ys @ [b])"
    from j have j': "n1 \<le> j" "j < n1 + (n1 - n0)" by simp_all
    then have sj: "sc2 j = sc1 (j - (n1 - n0))" using dup by simp
    have d: "n0 \<le> j - (n1 - n0)" "j - (n1 - n0) < n1"
      using j' le by simp_all
    have "y \<in> set xs" using y by (auto simp: split)
    then have sy: "sc2 y = sc1 y" using inxs agree by simp
    show "\<not> sc2 y < sc2 j"
      unfolding sj sy using y d by (rule top)
  qed
  have "rank_all sc2 (n1 + (n1 - n0)) = rank_from sc2 (rank_all sc2 n1) [n1..<n1 + (n1 - n0)]"
    by (rule rank_all_extend) simp
  also have "rank_all sc2 n1 = xs"
    unfolding xs_def using agree by (intro rank_all_cong) simp
  also have "xs = (ys @ [b]) @ zs"
    by (simp add: split)
  also have "rank_from sc2 ((ys @ [b]) @ zs) [n1..<n1 + (n1 - n0)] =
      (ys @ [b]) @ rank_from sc2 zs [n1..<n1 + (n1 - n0)]"
    using cond by (rule rank_from_prefix)
  finally have "take k (rank_all sc2 (n1 + (n1 - n0))) =
      ys @ b # take (k - Suc (length ys)) (rank_from sc2 zs [n1..<n1 + (n1 - n0)])"
    using klen by (simp add: take_Cons')
  then have "b \<in> set (take k (rank_all sc2 (n1 + (n1 - n0))))"
    by simp
  with b b1 show ?thesis by blast
qed

lemma embed_all_fst: "embed_all em ds = Inr new \<Longrightarrow> map fst new = ds"
  by (induction ds arbitrary: new) (auto split: sum.splits)

lemma add_documents_Inr:
  assumes "add_documents env docs w = (Inr (), w')"
  shows "\<exists>batch. embed_all (embed env) (split_documents env docs) = Inr batch \<and>
     w' = w\<lparr>vector_store := Some (store_chunks w @ batch)\<rparr>"
  using assms
  by (auto simp: add_documents_def store_add_def from_documents_def store_chunks_def Let_def
      split: option.splits sum.splits)

lemma add_documents_grows:
  "add_documents env docs w = (r, w') \<Longrightarrow> \<exists>new. store_chunks w' = store_chunks w @ new"
  by (auto simp: add_documents_def store_add_def from_documents_def store_chunks_def Let_def
      split: option.splits sum.splits)

text \<open>
  C8. Spec-modelled store. Adding the same documents twice, both times with success,
  stores their chunks twice: the store after the first call is the old store followed
  by the batch, after the second call the batch follows once more, so nothing is
  removed or merged and every earlier chunk keeps its position. For every query vector
  and every \<open>k\<close>: if the search returned a chunk of the first batch before the
  second call, it returns a chunk of the first batch after it. Any call of
  \<open>add_documents\<close>, failed or not, leaves the old chunks in place as a prefix.
\<close>

theorem add_documents_twice:
  assumes "add_documents env docs w = (Inr (), w1)" and "add_documents env docs w1 = (Inr (), w2)"
  shows "\<exists>batch. map fst batch = split_documents env docs \<and>
      store_chunks w1 = store_chunks w @ batch \<and>
      store_chunks w2 = store_chunks w @ batch @ batch \<and>
      (\<forall>v k. (\<exists>i\<in>set (store_query (similarity env) v (store_chunks w1) k).
                  length (store_chunks w) \<le> i) \<longrightarrow>
              (\<exists>i\<in>set (store_query (similarity env) v (store_chunks w2) k).
                  length (store_chunks w) \<le> i \<and> i < length (store_chunks w1))) \<and>
      (\<forall>ds r w'. add_documents env ds w = (r, w') \<longrightarrow>
         (\<exists>new. store_chunks w' = store_chunks w @ new))"
proof -
  from assms(1) obtain batch where batch: "embed_all (embed env) (split_documents env docs) = Inr batch"
    and w1: "w1 = w\<lparr>vector_store := Some (store_chunks w @ batch)\<rparr>"
    by (auto dest: add_documents_Inr)
  from assms(2) batch have w2: "w2 = w1\<lparr>vector_store := Some (store_chunks w1 @ batch)\<rparr>"
    by (auto dest: add_documents_Inr)
  define s0 where "s0 = store_chunks w"
  have s1: "store_chunks w1 = s0 @ batch"
    by (simp add: w1 store_chunks_def s0_def)
  have s2: "store_chunks w2 = s0 @ batch @ batch"
    by (simp add: w2 s1) (simp add: store_chunks_def)
  have keep: "\<exists>i\<in>set (store_query (similarity env) v (s0 @ batch @ batch) k).
      length s0 \<le> i \<and> i < length (s0 @ batch)"
    if hit: "\<exists>i\<in>set (store_query (similarity env) v (s0 @ batch) k). length s0 \<le> i" for v k
  proof -
    let ?sc1 = "store_scores (similarity env) v (s0 @ batch)"
    let ?sc2 = "store_scores (similarity env) v (s0 @ batch @ batch)"
    let ?n0 = "length s0" and ?n1 = "length (s0 @ batch)"
    have le: "?n0 \<le> ?n1" by simp
    have agree: "\<forall>i<?n1. ?sc2 i = ?sc1 i"
      by (simp add: store_scores_def nth_append)
    have dup: "\<forall>j. ?n1 \<le> j \<and> j < ?n1 + (?n1 - ?n0) \<longrightarrow> ?sc2 j = ?sc1 (j - (?n1 - ?n0))"
    proof (intro allI impI)
      fix j
      assume j: "?n1 \<le> j \<and> j < ?n1 + (?n1 - ?n0)"
      then have a: "\<not> j < length s0" "\<not> j - length s0 < length batch"
        and b: "\<not> j - length batch < length s0"
        and c: "j - length s0 - length batch = j - length batch - length s0"
        by auto
      have "(s0 @ batch @ batch) ! j = batch ! (j - length s0 - length batch)"
        using a by (simp add: nth_append)
      moreover have "(s0 @ batch) ! (j - (?n1 - ?n0)) = batch ! (j - length batch - length s0)"
        using b by (simp add: nth_append)
      ultimately show "?sc2 j = ?sc1 (j - (?n1 - ?n0))"
        by (simp add: store_scores_def add.commute)
    qed
    have hit': "\<exists>i\<in>set (take k (rank_all ?sc1 ?n1)). ?n0 \<le> i"
      using hit by (simp add: store_query_def)
    have len2: "length (s0 @ batch @ batch) = ?n1 + (?n1 - ?n0)"
      by simp
    show ?thesis
      unfolding store_query_def len2
      using le agree dup hit' by (rule rank_duplicate_batch)
  qed
  have "map fst batch = split_documents env docs"
    using batch by (rule embed_all_fst)
  moreover have "\<forall>ds r w'. add_documents env ds w = (r, w') \<longrightarrow>
         (\<exists>new. store_chunks w' = store_chunks w @ new)"
    by (auto dest: add_documents_grows)
  ultimately show ?thesis
    using s1 s2 keep unfolding s0_def [symmetric] by (intro exI [of _ batch]) simp
qed

text \<open>
  C4. Spec-modelled store. When a store exists and the query can be embedded,
  \<open>retrieve_context\<close> returns the chunks at the positions \<open>idx\<close>, where \<open>idx\<close>
  has at most \<open>k\<close> entries (exactly the smaller of \<open>k\<close> and the size of the store),
  all of them positions of the store and pairwise different, ordered by non-increasing
  score with equal scores in insertion order; when \<open>k\<close> is at least the size of the
  store, every chunk is returned.
\<close>

theorem retrieve_context_ranked:
  assumes "vector_store w = Some store" and "embed env q = Inr v"
  shows "\<exists>idx. retrieve_context env q k w = (Inr (map (\<lambda>i. fst (store ! i)) idx), w) \<and>
      length idx \<le> k \<and> length idx = min k (length store) \<and>
      (\<forall>i\<in>set idx. i < length store \<and> fst (store ! i) \<in> set (map fst store)) \<and>
      distinct idx \<and>
      sorted_wrt (\<lambda>a b. store_scores (similarity env) v store b < store_scores (similarity env) v store a \<or>
                         (store_scores (similarity env) v store a = store_scores (similarity env) v store b \<and> a < b)) idx \<and>
      (length store \<le> k \<longrightarrow> set idx = {0..<length store})"
proof -
  let ?sc = "store_scores (similarity env) v store"
  let ?idx = "store_query (similarity env) v store k"
  have r: "retrieve_context env q k w = (Inr (map (\<lambda>i. fst (store ! i)) ?idx), w)"
    using assms by (simp add: retrieve_context_def similarity_search_def store_query_def)
  have l: "length ?idx = min k (length store)"
    by (simp add: store_query_def min.commute)
  have m: "\<forall>i\<in>set ?idx. i < length store \<and> fst (store ! i) \<in> set (map fst store)"
  proof
    fix i
    assume "i \<in> set ?idx"
    then have "i \<in> set (rank_all ?sc (length store))"
      unfolding store_query_def by (rule in_set_takeD)
    then show "i < length store \<and> fst (store ! i) \<in> set (map fst store)"
      by simp
  qed
  have d: "distinct ?idx"
    unfolding store_query_def by (intro distinct_take distinct_rank_all)
  have "sorted_wrt (ranked_before ?sc) ?idx"
    unfolding store_query_def by (intro sorted_wrt_take sorted_rank_all)
  then have s: "sorted_wrt (\<lambda>a b. ?sc b < ?sc a \<or> (?sc a = ?sc b \<and> a < b)) ?idx"
    by (simp add: ranked_before_def [abs_def])
  have a: "length store \<le> k \<longrightarrow> set ?idx = {0..<length store}"
    by (simp add: store_query_def)
  from r l m d s a show ?thesis
    by (intro exI [of _ ?idx]) simp
qed



section \<open>Document store: the theorems at concrete inputs\<close>

lemma demo_rank: "store_query (\<lambda>a b. if a = b then 1 else 0 :: nat) 7 demo_store 2 = [1, 2]"
  by (simp add: store_query_def rank_all_def rank_from_def store_scores_def demo_store_def
      upt_rec [of 0] upt_rec [of 1] upt_rec [of 2])

theorem retrieve_context_ranked_witness:
  "retrieve_context (demo_env (\<lambda>p. Inr []) (\<lambda>s. Inr 7) (\<lambda>s. Inr [])) (ascii ''q'') 2
     (demo_world\<lparr>vector_store := Some demo_store\<rparr>) =
     (Inr [demo_doc\<lparr>page_content := ascii ''b''\<rparr>, demo_doc\<lparr>page_content := ascii ''c''\<rparr>],
      demo_world\<lparr>vector_store := Some demo_store\<rparr>) \<and>
   (\<exists>idx. retrieve_context (demo_env (\<lambda>p. Inr []) (\<lambda>s. Inr 7) (\<lambda>s. Inr [])) (ascii ''q'') 2
        (demo_world\<lparr>vector_store := Some demo_store\<rparr>) =
        (Inr (map (\<lambda>i. fst (demo_store ! i)) idx), demo_world\<lparr>vector_store := Some demo_store\<rparr>) \<and>
      length idx \<le> 2 \<and> distinct idx \<and> (\<forall>i\<in>set idx. i < length demo_store))"
proof -
  let ?env = "demo_env (\<lambda>p. Inr []) (\<lambda>s. Inr 7) (\<lambda>s. Inr [])"
  let ?w = "demo_world\<lparr>vector_store := Some demo_store\<rparr>"
  have h1: "vector_store ?w = Some demo_store" by simp
  have h2: "embed ?env (ascii ''q'') = Inr 7" by simp
  have e: "retrieve_context ?env (ascii ''q'') 2 ?w =
     (Inr [demo_doc\<lparr>page_content := ascii ''b''\<rparr>, demo_doc\<lparr>page_content := ascii ''c''\<rparr>], ?w)"
    by (simp add: retrieve_context_def similarity_search_def demo_rank) (simp add: demo_store_def)
  from retrieve_context_ranked [OF h1 h2, of 2] e show ?thesis
    by blast
qed


theorem add_documents_twice_witness:
  "add_documents (demo_env (\<lambda>p. Inr []) (\<lambda>s. Inr (length s)) (\<lambda>s. Inr [])) [demo_doc]
     (demo_world\<lparr>vector_store := Some [(demo_doc\<lparr>page_content := ascii ''a''\<rparr>, 2)]\<rparr>) =
     (Inr (), demo_world\<lparr>vector_store :=
        Some [(demo_doc\<lparr>page_content := ascii ''a''\<rparr>, 2), (demo_doc, 35)]\<rparr>) \<and>
   add_documents (demo_env (\<lambda>p. Inr []) (\<lambda>s. Inr (length s)) (\<lambda>s. Inr [])) [demo_doc]
     (demo_world\<lparr>vector_store :=
        Some [(demo_doc\<lparr>page_content := ascii ''a''\<rparr>, 2), (demo_doc, 35)]\<rparr>) =
     (Inr (), demo_world\<lparr>vector_store :=
        Some [(demo_doc\<lparr>page_content := ascii ''a''\<rparr>, 2), (demo_doc, 35), (demo_doc, 35)]\<rparr>) \<and>
   store_query (\<lambda>a b. if a = b then 1 else 0 :: nat) (35 :: nat)
     [(demo_doc\<lparr>page_content := ascii ''a''\<rparr>, 2), (demo_doc, 35)] 1 = [1] \<and>
   (\<exists>i\<in>set (store_query (\<lambda>a b. if a = b then 1 else 0 :: nat) (35 :: nat)
        [(demo_doc\<lparr>page_content := ascii ''a''\<rparr>, 2), (demo_doc, 35), (demo_doc, 35)] 1).
      1 \<le> i \<and> i < 2)"
proof -
  let ?env = "demo_env (\<lambda>p. Inr []) (\<lambda>s. Inr (length s)) (\<lambda>s. Inr [])"
  let ?a = "(demo_doc\<lparr>page_content := ascii ''a''\<rparr>, 2 :: nat)"
  let ?w0 = "demo_world\<lparr>vector_store := Some [?a]\<rparr>"
  let ?w1 = "demo_world\<lparr>vector_store := Some [?a, (demo_doc, 35)]\<rparr>"
  let ?w2 = "demo_world\<lparr>vector_store := Some [?a, (demo_doc, 35), (demo_doc, 35)]\<rparr>"
  let ?sim = "\<lambda>a b. if a = b then 1 else 0 :: nat"
  have len: "length (page_content demo_doc) = 35"
    by (simp add: demo_doc_def ascii_def)
  have h1: "add_documents ?env [demo_doc] ?w0 = (Inr (), ?w1)"
    by (simp add: add_documents_def store_add_def len)
  have h2: "add_documents ?env [demo_doc] ?w1 = (Inr (), ?w2)"
    by (simp add: add_documents_def store_add_def len)
  have c: "store_chunks ?w0 = [?a]" "store_chunks ?w1 = [?a, (demo_doc, 35)]"
    "store_chunks ?w2 = [?a, (demo_doc, 35), (demo_doc, 35)]"
    by (simp_all add: store_chunks_def)
  have q: "store_query ?sim 35 [?a, (demo_doc, 35)] 1 = [1]"
    by (simp add: store_query_def rank_all_def rank_from_def store_scores_def
        upt_rec [of 0] upt_rec [of 1])
  have hit: "\<exists>i\<in>set (store_query ?sim 35 (store_chunks ?w1) 1). length (store_chunks ?w0) \<le> i"
    unfolding c q by simp
  from add_documents_twice [OF h1 h2]
  have "\<forall>v k. (\<exists>i\<in>set (store_query (similarity ?env) v (store_chunks ?w1) k).
                  length (store_chunks ?w0) \<le> i) \<longrightarrow>
              (\<exists>i\<in>set (store_query (similarity ?env) v (store_chunks ?w2) k).
                  length (store_chunks ?w0) \<le> i \<and> i < length (store_chunks ?w1))"
    by blast
  then have "(\<exists>i\<in>set (store_query ?sim 35 (store_chunks ?w1) 1). length (store_chunks ?w0) \<le> i) \<longrightarrow>
      (\<exists>i\<in>set (store_query ?sim 35 (store_chunks ?w2) 1).
         length (store_chunks ?w0) \<le> i \<and> i < length (store_chunks ?w1))"
    unfolding demo_env_simps by blast
  with hit have "\<exists>i\<in>set (store_query ?sim 35 (store_chunks ?w2) 1).
      length (store_chunks ?w0) \<le> i \<and> i < length (store_chunks ?w1)"
    by blast
  then have "\<exists>i\<in>set (store_query ?sim 35 [?a, (demo_doc, 35), (demo_doc, 35)] 1). 1 \<le> i \<and> i < 2"
    unfolding c by (auto simp: numeral_2_eq_2)
  with h1 h2 q show ?thesis by blast
qed

end
